theory Spec2Isabelle
  imports
    Main
    "HOL-Library.Char_ord"
    "HOL-Library.List_Lexorder"
    "HOL-Library.Sublist"
    "HOL-Library.AList"
begin

section \<open>Python text and values\<close>

text \<open>
  Strings are byte lists and are read as ASCII text: letter case and white space are those
  of the ASCII range, where Python's \<^verbatim>\<open>str\<close> methods and these definitions agree.
  A byte above 127 has no case and is not white space here.
\<close>

definition lower_char :: "char \<Rightarrow> char" where
  "lower_char c =
     (let n = (of_char c :: nat) in if 65 \<le> n \<and> n \<le> 90 then char_of (n + 32) else c)"

definition upper_char :: "char \<Rightarrow> char" where
  "upper_char c =
     (let n = (of_char c :: nat) in if 97 \<le> n \<and> n \<le> 122 then char_of (n - 32) else c)"

text \<open>\<^verbatim>\<open>str.lower()\<close>.\<close>

definition lower :: "string \<Rightarrow> string" where
  "lower s = map lower_char s"

text \<open>\<^verbatim>\<open>str.capitalize()\<close>: the first character in upper case, the rest in lower case.\<close>

fun capitalize :: "string \<Rightarrow> string" where
  "capitalize [] = []"
| "capitalize (c # cs) = upper_char c # map lower_char cs"

text \<open>
  The characters \<^verbatim>\<open>str.isspace()\<close> accepts: tab, line feed, vertical tab, form feed,
  carriage return, the four separators 28 to 31, and the space.
\<close>

definition is_space :: "char \<Rightarrow> bool" where
  "is_space c = ((of_char c :: nat) \<in> set [9, 10, 11, 12, 13, 28, 29, 30, 31, 32])"

text \<open>\<^verbatim>\<open>str.strip()\<close>.\<close>

definition strip :: "string \<Rightarrow> string" where
  "strip s = rev (dropWhile is_space (rev (dropWhile is_space s)))"

text \<open>
  The line boundaries of \<^verbatim>\<open>str.splitlines()\<close>: line feed, vertical tab, form feed,
  carriage return and the separators 28 to 30; a carriage return followed by a line feed is
  one boundary. \<open>split_acc\<close> carries the current line reversed; a last line is kept only when
  it is not empty.
\<close>

definition is_linebreak :: "char \<Rightarrow> bool" where
  "is_linebreak c = ((of_char c :: nat) \<in> set [10, 11, 12, 13, 28, 29, 30])"

fun split_acc :: "string \<Rightarrow> string \<Rightarrow> string list" where
  "split_acc acc [] = (if acc = [] then [] else [rev acc])"
| "split_acc acc [c] = (if is_linebreak c then [rev acc] else [rev (c # acc)])"
| "split_acc acc (c # d # cs) =
     (if c = CHR 0x0D \<and> d = CHR 0x0A then rev acc # split_acc [] cs
      else if is_linebreak c then rev acc # split_acc [] (d # cs)
      else split_acc (c # acc) (d # cs))"

definition splitlines :: "string \<Rightarrow> string list" where
  "splitlines s = split_acc [] s"

text \<open>
  The value \<^verbatim>\<open>json.load\<close> returns. A JSON object is a Python dict, kept as the list of
  its items in insertion order; numbers are the integers (a float is used by the code below
  only through its truth value and its type, as an integer is).
\<close>

datatype json =
    JNull
  | JBool bool
  | JInt int
  | JStr string
  | JArr "json list"
  | JObj "(string \<times> json) list"

datatype error = AttributeError | TypeError | KeyError | ValueError | OverflowError

text \<open>Python's truth value: what \<^verbatim>\<open>not x\<close>, \<^verbatim>\<open>if x\<close> and \<^verbatim>\<open>x or y\<close> test.\<close>

fun truthy :: "json \<Rightarrow> bool" where
  "truthy JNull = False"
| "truthy (JBool b) = b"
| "truthy (JInt n) = (n \<noteq> 0)"
| "truthy (JStr s) = (s \<noteq> [])"
| "truthy (JArr xs) = (xs \<noteq> [])"
| "truthy (JObj kvs) = (kvs \<noteq> [])"

text \<open>\<^verbatim>\<open>a or b\<close>.\<close>

definition or_else :: "json \<Rightarrow> json \<Rightarrow> json" where
  "or_else a b = (if truthy a then a else b)"

text \<open>\<^verbatim>\<open>d.get(k, default)\<close> on a dict.\<close>

definition dict_get :: "(string \<times> 'a) list \<Rightarrow> string \<Rightarrow> 'a \<Rightarrow> 'a" where
  "dict_get d k dflt = (case map_of d k of None \<Rightarrow> dflt | Some v \<Rightarrow> v)"

text \<open>
  \<^verbatim>\<open>x.get(k)\<close> and \<^verbatim>\<open>x.get(k, default)\<close> on any value: only a dict has the method.
\<close>

fun get_default :: "json \<Rightarrow> string \<Rightarrow> json \<Rightarrow> error + json" where
  "get_default (JObj d) k dflt = Inr (dict_get d k dflt)"
| "get_default _ k dflt = Inl AttributeError"

definition get :: "json \<Rightarrow> string \<Rightarrow> error + json" where
  "get x k = get_default x k JNull"

text \<open>
  What a \<^verbatim>\<open>for\<close> loop runs over: the items of a list, the keys of a dict, the characters
  of a string; nothing else that JSON holds is iterable.
\<close>

fun iter :: "json \<Rightarrow> error + json list" where
  "iter (JArr xs) = Inr xs"
| "iter (JObj kvs) = Inr (map (\<lambda>kv. JStr (fst kv)) kvs)"
| "iter (JStr s) = Inr (map (\<lambda>c. JStr [c]) s)"
| "iter _ = Inl TypeError"

text \<open>Sequencing: an exception raised by the first step is the result.\<close>

definition on_ok :: "error + 'a \<Rightarrow> ('a \<Rightarrow> error + 'b) \<Rightarrow> error + 'b" where
  "on_ok r f = (case r of Inl e \<Rightarrow> Inl e | Inr x \<Rightarrow> f x)"

text \<open>
  A loop that appends the rows of each item to one list; the first exception ends it and
  nothing is returned.
\<close>

fun collect :: "('a \<Rightarrow> error + 'b list) \<Rightarrow> 'a list \<Rightarrow> error + 'b list" where
  "collect f [] = Inr []"
| "collect f (x # xs) = on_ok (f x) (\<lambda>r. on_ok (collect f xs) (\<lambda>rs. Inr (r @ rs)))"

section \<open>security\_score.py\<close>

text \<open>
  One row of the normalized issues table, in the column order of the source:
  \<^verbatim>\<open>timestamp,tool,contract,issue_type,severity,description\<close>. The parsers put whatever
  value the report holds into the contract, issue and description cells, so the type of these
  cells is a parameter: \<open>json\<close> for the rows a parser builds, text for the scoring below.
\<close>

record 'c finding =
  timestamp :: string
  tool :: string
  contract :: 'c
  issue_type :: 'c
  severity :: string
  description :: 'c

text \<open>One row of the table \<^verbatim>\<open>aggregate_scores\<close> returns.\<close>

record 'c score_entry =
  contract :: 'c
  Critical :: nat
  High :: nat
  Medium :: nat
  SecurityScore :: int

subsection \<open>load\_weights\<close>

text \<open>
  The weights file as \<^verbatim>\<open>load_weights\<close> meets it: absent (\<^verbatim>\<open>FileNotFoundError\<close>, the one
  exception caught), or a JSON object given by its items with every value already converted
  by \<^verbatim>\<open>int(v)\<close>, or a file that makes \<^verbatim>\<open>json.load\<close>, \<^verbatim>\<open>data.items()\<close> or \<^verbatim>\<open>int(v)\<close>
  raise, with the exception raised.
\<close>

datatype weights_file =
    Missing
  | Rejected error
  | Entries "(string \<times> int) list"

definition default_weights :: "(string \<times> int) list" where
  "default_weights = [(''Critical'', 5), (''High'', 3), (''Medium'', 1)]"

text \<open>
  \<^verbatim>\<open>d[k] = v\<close> on a dict kept as its item list is \<^const>\<open>AList.update\<close>: the value is replaced
  in place when the key is there, and the item is added at the end otherwise.
  \<open>dict_update\<close> is \<^verbatim>\<open>d.update(items)\<close> and the dict comprehension alike.
\<close>

definition dict_update :: "('k \<times> 'v) list \<Rightarrow> ('k \<times> 'v) list \<Rightarrow> ('k \<times> 'v) list" where
  "dict_update d items = foldl (\<lambda>m kv. AList.update (fst kv) (snd kv) m) d items"

fun load_weights :: "weights_file \<Rightarrow> error + (string \<times> int) list" where
  "load_weights Missing = Inr default_weights"
| "load_weights (Rejected e) = Inl e"
| "load_weights (Entries data) = Inr (dict_update default_weights (dict_update [] data))"

subsection \<open>norm\_sev\<close>

fun norm_sev :: "json \<Rightarrow> error + string" where
  "norm_sev (JStr s) =
     (if s = [] then Inr ''Unknown''
      else let s = lower (strip s) in
        if s \<in> set [''critical'', ''very high''] then Inr ''Critical''
        else if s \<in> set [''high''] then Inr ''High''
        else if s \<in> set [''medium''] then Inr ''Medium''
        else if s \<in> set [''low'', ''info'', ''informational'', ''warning'']
          then Inr (capitalize s)
        else Inr (capitalize s))"
| "norm_sev v = (if truthy v then Inl AttributeError else Inr ''Unknown'')"

subsection \<open>extract\_contract\_from\_path\<close>

text \<open>
  \<^verbatim>\<open>os.path.basename\<close> and \<^verbatim>\<open>os.path.splitext\<close> of \<^verbatim>\<open>posixpath\<close>: the name is what follows
  the last slash; the extension starts at the last dot of the name, unless only dots come
  before that dot. A path that is not a string makes \<^verbatim>\<open>basename\<close> raise \<^verbatim>\<open>TypeError\<close>.
\<close>

definition basename :: "string \<Rightarrow> string" where
  "basename p = rev (takeWhile (\<lambda>c. c \<noteq> CHR ''/'') (rev p))"

definition splitext_root :: "string \<Rightarrow> string" where
  "splitext_root p =
     (case dropWhile (\<lambda>c. c \<noteq> CHR ''.'') (rev p) of
        [] \<Rightarrow> p
      | dot # before \<Rightarrow> if list_ex (\<lambda>c. c \<noteq> CHR ''.'') before then rev before else p)"

definition extract_contract_from_path :: "string \<Rightarrow> string" where
  "extract_contract_from_path path = splitext_root (basename path)"

fun path_arg :: "json \<Rightarrow> error + string" where
  "path_arg (JStr s) = Inr s"
| "path_arg _ = Inl TypeError"

subsection \<open>parse\_slither\<close>

text \<open>
  The contract of one element: the first true value of the \<^verbatim>\<open>or\<close> chain, each operand
  evaluated only when the ones before it are false.
\<close>

definition slither_contract :: "json \<Rightarrow> error + json" where
  "slither_contract e =
     on_ok (get e ''source_mapping'') (\<lambda>sm.
     on_ok (get (or_else sm (JObj [])) ''contract'') (\<lambda>c1.
       if truthy c1 then Inr c1
       else on_ok (get e ''contract'') (\<lambda>c2.
         if truthy c2 then Inr c2
         else on_ok (get_default (or_else sm (JObj [])) ''filename'' (JStr [])) (\<lambda>fn.
              on_ok (path_arg fn) (\<lambda>p.
                Inr (or_else (JStr (extract_contract_from_path p)) (JStr ''Unknown'')))))))"

definition slither_row :: "string \<Rightarrow> json \<Rightarrow> json \<Rightarrow> string \<Rightarrow> json \<Rightarrow> json finding" where
  "slither_row ts c issue sev desc =
     \<lparr>timestamp = ts, tool = ''slither'', contract = c, issue_type = issue,
      severity = sev, description = desc\<rparr>"

text \<open>The body of the loop over the detectors.\<close>

fun slither_detector :: "string \<Rightarrow> json \<Rightarrow> error + json finding list" where
  "slither_detector ts (JObj d) =
     (let issue = or_else (dict_get d ''check'' JNull)
                    (or_else (dict_get d ''title'' JNull) (JStr ''Slither finding''));
          sev = or_else (dict_get d ''impact'' JNull)
                  (or_else (dict_get d ''severity'' JNull) (JStr ''Unknown''));
          desc = or_else (dict_get d ''description'' JNull) (JStr []);
          elements = or_else (dict_get d ''elements'' JNull) (JArr [])
      in if truthy elements then
           on_ok (iter elements) (collect (\<lambda>e.
             on_ok (slither_contract e) (\<lambda>c.
             on_ok (norm_sev sev) (\<lambda>s. Inr [slither_row ts c issue s desc]))))
         else
           on_ok (norm_sev sev) (\<lambda>s. Inr [slither_row ts (JStr ''Unknown'') issue s desc]))"
| "slither_detector ts _ = Inl AttributeError"

text \<open>
  \<open>ts\<close> is \<^verbatim>\<open>now_utc()\<close>; the file is \<open>None\<close> when \<^verbatim>\<open>open\<close> or \<^verbatim>\<open>json.load\<close> raises,
  which the \<^verbatim>\<open>try\<close> turns into the empty table. Nothing after the \<^verbatim>\<open>try\<close> is guarded.
\<close>

definition parse_slither :: "string \<Rightarrow> json option \<Rightarrow> error + json finding list" where
  "parse_slither ts file =
     (case file of
        None \<Rightarrow> Inr []
      | Some data \<Rightarrow>
          on_ok (get data ''results'') (\<lambda>res.
          on_ok (get (or_else res (JObj [])) ''detectors'') (\<lambda>dets.
          on_ok (iter (or_else dets (JArr []))) (collect (slither_detector ts)))))"

subsection \<open>parse\_mythril\<close>

fun mythril_issue :: "string \<Rightarrow> json \<Rightarrow> error + json finding list" where
  "mythril_issue ts (JObj i) =
     (let issue = or_else (dict_get i ''title'' JNull)
                    (or_else (dict_get i ''swc-id'' JNull) (JStr ''Mythril issue''));
          sev = or_else (dict_get i ''severity'' JNull) (JStr ''Unknown'');
          desc = or_else (dict_get i ''description'' JNull) (JStr []);
          c = or_else (dict_get i ''contract'' JNull)
                (or_else (dict_get i ''filename'' JNull) (JStr ''Unknown''))
      in on_ok (path_arg c) (\<lambda>p.
         on_ok (norm_sev sev) (\<lambda>s.
           Inr [\<lparr>timestamp = ts, tool = ''mythril'',
                 contract = JStr (extract_contract_from_path p), issue_type = issue,
                 severity = s, description = desc\<rparr>])))"
| "mythril_issue ts _ = Inl AttributeError"

definition parse_mythril :: "string \<Rightarrow> json option \<Rightarrow> error + json finding list" where
  "parse_mythril ts file =
     (case file of
        None \<Rightarrow> Inr []
      | Some data \<Rightarrow>
          on_ok (get_default data ''issues'' (JArr [])) (\<lambda>issues.
          on_ok (iter (or_else issues (JArr []))) (collect (mythril_issue ts))))"

subsection \<open>parse\_echidna\<close>

text \<open>One entry of the \<^verbatim>\<open>tests\<close> mapping counts as failed.\<close>

fun echidna_test_failed :: "json \<Rightarrow> bool" where
  "echidna_test_failed (JObj v) =
     (dict_get v ''status'' JNull = JStr ''FAIL'' \<or> truthy (dict_get v ''foundCounterexample'' JNull))"
| "echidna_test_failed _ = False"

text \<open>
  The heuristic after the \<^verbatim>\<open>try\<close>. The \<^verbatim>\<open>tests\<close> branch checks that it has dicts in
  hand; the \<^verbatim>\<open>failedTests\<close> branch calls \<^verbatim>\<open>.keys()\<close> on whatever true value is there.
\<close>

fun echidna_failures :: "json \<Rightarrow> error + string list" where
  "echidna_failures (JObj data) =
     (if ''failedTests'' \<in> set (map fst data) then
        (case or_else (dict_get data ''failedTests'' JNull) (JObj []) of
           JObj m \<Rightarrow> Inr (map fst m)
         | _ \<Rightarrow> Inl AttributeError)
      else if ''tests'' \<in> set (map fst data) then
        (case dict_get data ''tests'' JNull of
           JObj tests \<Rightarrow> Inr (map fst (filter (\<lambda>kv. echidna_test_failed (snd kv)) tests))
         | _ \<Rightarrow> Inr [])
      else Inr [])"
| "echidna_failures _ = Inr []"

definition echidna_row :: "string \<Rightarrow> string \<Rightarrow> json finding" where
  "echidna_row ts prop =
     \<lparr>timestamp = ts, tool = ''echidna'', contract = JStr ''Invariants'',
      issue_type = JStr prop, severity = ''Medium'',
      description = JStr ''Property failed under fuzzing''\<rparr>"

text \<open>
  What the \<^verbatim>\<open>try\<close> block leaves in \<^verbatim>\<open>data\<close>. \<open>loads\<close> is \<^verbatim>\<open>json.loads\<close>, \<open>None\<close> where it
  raises \<^verbatim>\<open>JSONDecodeError\<close>; the result is \<open>None\<close> when the second call raises, which the
  outer \<^verbatim>\<open>except\<close> catches.
\<close>

definition echidna_data :: "(string \<Rightarrow> json option) \<Rightarrow> string \<Rightarrow> json option" where
  "echidna_data loads content =
     (case loads content of
        Some data \<Rightarrow> Some data
      | None \<Rightarrow>
          (let lines = filter (\<lambda>ln. strip ln \<noteq> []) (splitlines (strip content))
           in if lines \<noteq> [] then loads (last lines) else Some (JObj [])))"

text \<open>The file is \<open>None\<close> when \<^verbatim>\<open>open\<close> or \<^verbatim>\<open>read\<close> raises.\<close>

definition parse_echidna ::
  "(string \<Rightarrow> json option) \<Rightarrow> string \<Rightarrow> string option \<Rightarrow> error + json finding list" where
  "parse_echidna loads ts file =
     (case file of
        None \<Rightarrow> Inr []
      | Some content \<Rightarrow>
          (case echidna_data loads content of
             None \<Rightarrow> Inr []
           | Some data \<Rightarrow>
               on_ok (echidna_failures data) (\<lambda>failures. Inr (map (echidna_row ts) failures))))"

subsection \<open>aggregate\_scores\<close>

text \<open>The dict comprehension \<^verbatim>\<open>{k.capitalize(): int(v) for k, v in weights.items()}\<close>.\<close>

definition sev_map :: "(string \<times> int) list \<Rightarrow> (string \<times> int) list" where
  "sev_map weights = dict_update [] (map (\<lambda>kv. (capitalize (fst kv), snd kv)) weights)"

text \<open>The size of the group of one contract and one severity.\<close>

definition count_cs :: "'c finding list \<Rightarrow> 'c \<Rightarrow> string \<Rightarrow> nat" where
  "count_cs df c s = length (filter (\<lambda>f. finding.contract f = c \<and> severity f = s) df)"

text \<open>
  The row of one contract in \<^verbatim>\<open>counts\<close>, as the pairs of column and cell: after
  \<^verbatim>\<open>unstack(fill_value=0)\<close> there is one column for each severity among the rows kept, in
  sorted order, and the loop adds the columns Critical, High and Medium that are not there,
  holding 0.
\<close>

definition counts_row :: "'c finding list \<Rightarrow> 'c \<Rightarrow> (string \<times> nat) list" where
  "counts_row kept c =
     (let cols = sort (remdups (map severity kept))
      in map (\<lambda>s. (s, count_cs kept c s)) cols @
         map (\<lambda>s. (s, 0)) (filter (\<lambda>s. s \<notin> set cols) [''Critical'', ''High'', ''Medium'']))"

text \<open>The inner function; \<^verbatim>\<open>row.get(sev, 0)\<close> is 0 for a severity that is no column.\<close>

definition score_row :: "(string \<times> int) list \<Rightarrow> (string \<times> nat) list \<Rightarrow> int" where
  "score_row sm row =
     (let penalty = foldl (\<lambda>p kv. p + int (dict_get row (fst kv) 0) * snd kv) 0 sm
      in max 0 (100 - penalty))"

text \<open>
  Rows are kept when their severity is a key of \<^verbatim>\<open>sev_map\<close>, grouped by contract and
  severity, and the table has one row for each contract among the rows kept, in sorted order
  (\<^verbatim>\<open>groupby\<close> sorts its keys). When no row is kept, \<^verbatim>\<open>counts\<close> has no row;
  \<^verbatim>\<open>counts.apply(score_row, axis=1)\<close> then returns a frame instead of a column, and the
  assignment to \<^verbatim>\<open>counts["SecurityScore"]\<close> raises \<^verbatim>\<open>ValueError\<close>.
\<close>

definition aggregate_scores ::
  "('c::linorder) finding list \<Rightarrow> (string \<times> int) list \<Rightarrow> error + 'c score_entry list" where
  "aggregate_scores df weights =
     (let sm = sev_map weights;
          kept = filter (\<lambda>f. severity f \<in> set (map fst sm)) df
      in if kept = [] then Inl ValueError
         else Inr (map (\<lambda>c. let row = counts_row kept c
                  in \<lparr>contract = c,
                      Critical = dict_get row ''Critical'' 0,
                      High = dict_get row ''High'' 0,
                      Medium = dict_get row ''Medium'' 0,
                      SecurityScore = score_row sm row\<rparr>)
           (sort (remdups (map finding.contract kept)))))"

subsection \<open>main: the score table\<close>

text \<open>The branch of \<^verbatim>\<open>main\<close> on \<^verbatim>\<open>len(all_issues) == 0\<close>.\<close>

definition main_scores ::
  "string finding list \<Rightarrow> (string \<times> int) list \<Rightarrow> error + string score_entry list" where
  "main_scores all_issues weights =
     (if length all_issues = 0 then
        Inr [\<lparr>contract = ''ProductRegistry'', Critical = 0, High = 0, Medium = 0,
              SecurityScore = 100\<rparr>,
             \<lparr>contract = ''ProductRegistryImproved'', Critical = 0, High = 0, Medium = 0,
              SecurityScore = 100\<rparr>]
      else aggregate_scores all_issues weights)"

section \<open>retest\_manager.py\<close>

subsection \<open>classify\_issue\<close>

definition critical_keywords :: "string list" where
  "critical_keywords =
     [''reentrancy'', ''access control'', ''authorization'', ''authoriz'', ''overflow'',
      ''underflow'', ''auth bypass'', ''ownership'', ''unauthorized'']"

definition medium_keywords :: "string list" where
  "medium_keywords =
     [''timestamp'', ''equality'', ''pragma'', ''version'', ''block.timestamp'', ''== 0'',
      ''!= 0'']"

text \<open>\<^verbatim>\<open>k in s\<close> on strings is \<^const>\<open>sublist\<close>; \<^verbatim>\<open>any\<close> over a list is \<^const>\<open>list_ex\<close>.\<close>

definition classify_issue :: "string \<Rightarrow> string" where
  "classify_issue msg =
     (let s = lower msg
      in if list_ex (\<lambda>k. sublist k s) critical_keywords then ''CRITICAL''
         else if list_ex (\<lambda>k. sublist k s) medium_keywords then ''MEDIUM''
         else ''MINOR'')"

subsection \<open>analyze\_reports\<close>

text \<open>
  One path the glob returns: \<open>base\<close> is \<^verbatim>\<open>os.path.basename(p)\<close>, and \<open>dumped\<close> is
  \<^verbatim>\<open>json.dumps(json.load(f))\<close>, or \<open>None\<close> when opening, loading or dumping raises.
  \<^verbatim>\<open>json.dumps\<close> escapes every character beyond ASCII, so this text is ASCII.
\<close>

record report_file =
  base :: string
  dumped :: "string option"

text \<open>\<^verbatim>\<open>summary[k].append(x)\<close> where the key is there.\<close>

definition dict_append :: "(string \<times> 'a list) list \<Rightarrow> string \<Rightarrow> 'a \<Rightarrow> (string \<times> 'a list) list" where
  "dict_append d k x = map (\<lambda>kv. if fst kv = k then (fst kv, snd kv @ [x]) else kv) d"

text \<open>
  The body of the loop. A \<^verbatim>\<open>KeyError\<close> of \<^verbatim>\<open>summary[sev]\<close> would be caught with the other
  exceptions of the \<^verbatim>\<open>try\<close>, and the handler appends to MINOR.
\<close>

definition analyze_step ::
  "(string \<times> string list) list \<Rightarrow> report_file \<Rightarrow> (string \<times> string list) list" where
  "analyze_step summary p =
     (case dumped p of
        Some content \<Rightarrow>
          (let sev = classify_issue content
           in if sev \<in> set (map fst summary) then dict_append summary sev (base p)
              else dict_append summary ''MINOR'' (base p))
      | None \<Rightarrow> dict_append summary ''MINOR'' (base p))"

definition analyze_reports :: "report_file list \<Rightarrow> (string \<times> string list) list" where
  "analyze_reports paths =
     foldl analyze_step [(''CRITICAL'', []), (''MEDIUM'', []), (''MINOR'', [])] paths"

subsection \<open>write\_retest\_plan\<close>

text \<open>The plan written to the file, with the keys of the JSON document.\<close>

record retest_plan =
  timestamp :: string
  results_dir :: string
  severity_counts :: "(string \<times> nat) list"
  files :: "(string \<times> string list) list"
  recommended_actions :: "string list"

text \<open>\<^verbatim>\<open>d[k]\<close>.\<close>

definition subscript :: "(string \<times> 'a) list \<Rightarrow> string \<Rightarrow> error + 'a" where
  "subscript d k = (case map_of d k of None \<Rightarrow> Inl KeyError | Some v \<Rightarrow> Inr v)"

definition full_actions :: "string list" where
  "full_actions =
     [''run_slither'', ''run_mythril'', ''forge_test'', ''measure_tte'',
      ''measure_tte_improved'', ''aggregate_metrics'', ''plot_metrics'']"

definition analysis_actions :: "string list" where
  "analysis_actions = [''run_slither'', ''run_mythril'', ''aggregate_metrics'']"

text \<open>
  \<open>ts\<close> is the module's \<^verbatim>\<open>TS\<close>. The result is the plan that is written; the path of the
  file, which the source returns, is left out.
\<close>

definition write_retest_plan ::
  "string \<Rightarrow> string \<Rightarrow> (string \<times> string list) list \<Rightarrow> error + retest_plan" where
  "write_retest_plan ts dir summary =
     (let plan = \<lparr>timestamp = ts, results_dir = dir,
                  severity_counts = map (\<lambda>kv. (fst kv, length (snd kv))) summary,
                  files = summary, recommended_actions = []\<rparr>
      in on_ok (subscript summary ''CRITICAL'') (\<lambda>critical.
           if critical \<noteq> [] then Inr (plan\<lparr>recommended_actions := full_actions\<rparr>)
           else on_ok (subscript summary ''MEDIUM'') (\<lambda>medium.
             if medium \<noteq> [] then Inr (plan\<lparr>recommended_actions := analysis_actions\<rparr>)
             else Inr (plan\<lparr>recommended_actions := []\<rparr>))))"

text \<open>
  The bucket a path lands in: what \<^verbatim>\<open>classify_issue\<close> says of a report that loads, MINOR
  for one that does not; and the names of the paths of one bucket, in the order of the glob.
\<close>

definition bucket_of :: "report_file \<Rightarrow> string" where
  "bucket_of p = (case dumped p of None \<Rightarrow> ''MINOR'' | Some content \<Rightarrow> classify_issue content)"

definition in_bucket :: "string \<Rightarrow> report_file list \<Rightarrow> string list" where
  "in_bucket b paths = map base (filter (\<lambda>p. bucket_of p = b) paths)"

section \<open>aggregate\_metrics.py\<close>

text \<open>
  The coverage percentage is a Python float. Floats stay abstract here: \<open>'f\<close> is the type
  of their values, and the operations on them are parameters of the definitions.
  \<^item> \<open>percent lh lf\<close> is the expression \<^verbatim>\<open>round((total_lh / total_lf) * 100.0, 2)\<close>; the
    division of two ints raises \<^verbatim>\<open>OverflowError\<close> where the quotient is beyond the floats.
  \<^item> \<open>to_int s\<close> is \<^verbatim>\<open>int(s)\<close>, \<open>None\<close> where it raises.
  \<^item> \<open>search pat content\<close> is \<^verbatim>\<open>re.search(pat, content, flags=re.IGNORECASE)\<close>, given
    by \<^verbatim>\<open>m.group(1)\<close>, \<open>None\<close> where nothing matches.
  \<^item> \<open>to_float s\<close> is \<^verbatim>\<open>float(s)\<close>, \<open>None\<close> where it raises \<^verbatim>\<open>ValueError\<close>.
\<close>

subsection \<open>parse\_coverage\_summary\<close>





subsection \<open>parse\_coverage\_lcov\<close>




subsection \<open>main: the coverage\<close>


section \<open>The scanner-A report format\<close>

text \<open>
  The shape of a report as the external interface gives it:
  \<^verbatim>\<open>{results:{detectors:[{check|title, impact|severity, description,
  elements:[{source_mapping:{contract,filename}, contract}]}]}}\<close>.
  Every key may be missing; \<^verbatim>\<open>results\<close> and \<^verbatim>\<open>source_mapping\<close> are objects,
  \<^verbatim>\<open>detectors\<close> and \<^verbatim>\<open>elements\<close> arrays; the severity, contract and file name fields are
  strings.
\<close>

definition text_or_absent :: "(string \<times> json) list \<Rightarrow> string \<Rightarrow> bool" where
  "text_or_absent d k = (case map_of d k of None \<Rightarrow> True | Some (JStr s) \<Rightarrow> True | Some _ \<Rightarrow> False)"

fun slither_element_ok :: "json \<Rightarrow> bool" where
  "slither_element_ok (JObj e) =
     (text_or_absent e ''contract'' \<and>
      (case map_of e ''source_mapping'' of
         None \<Rightarrow> True
       | Some (JObj sm) \<Rightarrow> text_or_absent sm ''contract'' \<and> text_or_absent sm ''filename''
       | Some _ \<Rightarrow> False))"
| "slither_element_ok _ = False"

fun slither_detector_ok :: "json \<Rightarrow> bool" where
  "slither_detector_ok (JObj d) =
     (text_or_absent d ''impact'' \<and> text_or_absent d ''severity'' \<and>
      (case map_of d ''elements'' of
         None \<Rightarrow> True
       | Some (JArr es) \<Rightarrow> list_all slither_element_ok es
       | Some _ \<Rightarrow> False))"
| "slither_detector_ok _ = False"

fun slither_report_ok :: "json \<Rightarrow> bool" where
  "slither_report_ok (JObj doc) =
     (case map_of doc ''results'' of
        None \<Rightarrow> True
      | Some (JObj res) \<Rightarrow>
          (case map_of res ''detectors'' of
             None \<Rightarrow> True
           | Some (JArr ds) \<Rightarrow> list_all slither_detector_ok ds
           | Some _ \<Rightarrow> False)
      | Some _ \<Rightarrow> False)"
| "slither_report_ok _ = False"

text \<open>
  The fields of such a report, read as the spec's words name them: a missing text is empty,
  a missing object or array has no entries.
\<close>

definition text_of :: "(string \<times> json) list \<Rightarrow> string \<Rightarrow> string" where
  "text_of d k = (case map_of d k of Some (JStr s) \<Rightarrow> s | _ \<Rightarrow> [])"

definition object_of :: "(string \<times> json) list \<Rightarrow> string \<Rightarrow> (string \<times> json) list" where
  "object_of d k = (case map_of d k of Some (JObj m) \<Rightarrow> m | _ \<Rightarrow> [])"

definition array_of :: "(string \<times> json) list \<Rightarrow> string \<Rightarrow> json list" where
  "array_of d k = (case map_of d k of Some (JArr xs) \<Rightarrow> xs | _ \<Rightarrow> [])"

fun report_detectors :: "json \<Rightarrow> json list" where
  "report_detectors (JObj doc) = array_of (object_of doc ''results'') ''detectors''"
| "report_detectors _ = []"

fun detector_elements :: "json \<Rightarrow> json list" where
  "detector_elements (JObj d) = array_of d ''elements''"
| "detector_elements _ = []"

text \<open>
  The contract of an element in the spec's words: the first non-empty value of the chain
  \<^verbatim>\<open>source_mapping.contract\<close>, the element's \<^verbatim>\<open>contract\<close>, the stem of
  \<^verbatim>\<open>source_mapping.filename\<close>, ``Unknown''. And the contracts of the findings of one
  detector: ``Unknown'' once when it has no element, else one per element.
\<close>

fun first_nonempty :: "string list \<Rightarrow> string" where
  "first_nonempty [] = []"
| "first_nonempty (s # ss) = (if s \<noteq> [] then s else first_nonempty ss)"

fun chain_contract :: "json \<Rightarrow> string" where
  "chain_contract (JObj e) =
     first_nonempty
       [text_of (object_of e ''source_mapping'') ''contract'',
        text_of e ''contract'',
        extract_contract_from_path (text_of (object_of e ''source_mapping'') ''filename''),
        ''Unknown'']"
| "chain_contract _ = ''Unknown''"

definition detector_contracts :: "json \<Rightarrow> json list" where
  "detector_contracts d =
     (if detector_elements d = [] then [JStr ''Unknown'']
      else map (\<lambda>e. JStr (chain_contract e)) (detector_elements d))"

text \<open>
  Scenario A of the spec, and a report with a detector whose four elements name their
  contract in the four ways of the chain, followed by a detector without elements.
\<close>

definition scenario_a :: json where
  "scenario_a =
     JObj [(''success'', JBool True),
           (''results'', JObj [(''detectors'',
              JArr [JObj [(''check'', JStr ''reentrancy-eth''), (''impact'', JStr ''High''),
                          (''description'', JStr ''Reentrancy in Token.withdraw()''),
                          (''elements'',
                            JArr [JObj [(''type'', JStr ''function''), (''name'', JStr ''withdraw''),
                                        (''source_mapping'',
                                          JObj [(''filename'', JStr ''Token.sol'')])]])]])])]"

definition slither_sample :: json where
  "slither_sample =
     JObj [(''success'', JBool True), (''error'', JNull),
           (''results'', JObj [(''detectors'',
              JArr [JObj [(''check'', JStr ''reentrancy-eth''), (''impact'', JStr ''High''),
                          (''elements'',
                            JArr [JObj [(''source_mapping'',
                                          JObj [(''contract'', JStr ''Vault''),
                                                (''filename'', JStr ''src/Vault.sol'')])],
                                  JObj [(''contract'', JStr ''Bank''),
                                        (''source_mapping'',
                                          JObj [(''filename'', JStr ''src/Token.sol'')])],
                                  JObj [(''source_mapping'',
                                          JObj [(''filename'', JStr ''src/Token.sol'')])],
                                  JObj [(''name'', JStr ''withdraw'')]])],
                    JObj [(''check'', JStr ''solc-version''), (''impact'', JStr ''Informational''),
                          (''elements'', JArr [])]])])]"

section \<open>Sample inputs\<close>

subsection \<open>Sample directories\<close>

text \<open>
  A directory with a report of a reentrancy, a report of a timestamp dependence and a report
  that does not load; and a directory whose only report does not load.
\<close>

definition sample_reports :: "report_file list" where
  "sample_reports =
     [\<lparr>base = ''slither_1.json'', dumped = Some ''Reentrancy in withdraw()''\<rparr>,
      \<lparr>base = ''mythril_1.json'', dumped = Some ''uses block.timestamp''\<rparr>,
      \<lparr>base = ''echidna_1.json'', dumped = None\<rparr>]"

definition broken_only :: "report_file list" where
  "broken_only = [\<lparr>base = ''slither_broken.json'', dumped = None\<rparr>]"

subsection \<open>Sample coverage files\<close>







subsection \<open>Sample findings\<close>

text \<open>
  A finding of a contract with a severity, the findings of Scenario B, and a list in which
  one contract appears only under Low.
\<close>

definition issue :: "string \<Rightarrow> string \<Rightarrow> string finding" where
  "issue c s =
     \<lparr>finding.timestamp = ''2025-01-01T00:00:00Z'', tool = ''slither'', contract = c,
      issue_type = ''check'', severity = s, description = []\<rparr>"

definition token_issues :: "string finding list" where
  "token_issues =
     [issue ''Token'' ''Critical'', issue ''Token'' ''Medium'', issue ''Token'' ''Medium'']"

definition vault_issues :: "string finding list" where
  "vault_issues = [issue ''Vault'' ''High'', issue ''Token'' ''Low'']"

section \<open>Properties of the retest manager\<close>

lemma lower_append: "lower (xs @ ys) = lower xs @ lower ys"
  by (simp add: lower_def)

lemma classify_issue_cases:
  "classify_issue msg = ''CRITICAL'' \<or> classify_issue msg = ''MEDIUM'' \<or>
   classify_issue msg = ''MINOR''"
  by (simp add: classify_issue_def Let_def)

text \<open>
  C5. Triage classification is a first-match priority function over the lower-cased text:
  a text that holds a CRITICAL keyword is CRITICAL whatever else it holds, otherwise a text
  that holds a MEDIUM keyword is MEDIUM, otherwise the text is MINOR. So a text with a
  keyword of both lists is CRITICAL, and a keyword counts in any letter case.
\<close>

theorem classify_issue_first_match:
  "classify_issue msg =
     (if \<exists>k \<in> set critical_keywords. \<exists>pre post. lower msg = pre @ k @ post then ''CRITICAL''
      else if \<exists>k \<in> set medium_keywords. \<exists>pre post. lower msg = pre @ k @ post then ''MEDIUM''
      else ''MINOR'')
   \<and> ((\<exists>k \<in> set critical_keywords. sublist k (lower msg)) \<and>
       (\<exists>k \<in> set medium_keywords. sublist k (lower msg))
       \<longrightarrow> classify_issue msg = ''CRITICAL'')
   \<and> (lower w \<in> set critical_keywords \<longrightarrow> classify_issue (pre @ w @ post) = ''CRITICAL'')"
proof -
  have a: "classify_issue msg =
     (if \<exists>k \<in> set critical_keywords. \<exists>pre post. lower msg = pre @ k @ post then ''CRITICAL''
      else if \<exists>k \<in> set medium_keywords. \<exists>pre post. lower msg = pre @ k @ post then ''MEDIUM''
      else ''MINOR'')" for msg
    unfolding classify_issue_def Let_def list_ex_iff sublist_def by simp
  have b: "(\<exists>k \<in> set critical_keywords. sublist k (lower msg)) \<and>
       (\<exists>k \<in> set medium_keywords. sublist k (lower msg))
       \<longrightarrow> classify_issue msg = ''CRITICAL''"
    unfolding classify_issue_def Let_def list_ex_iff by simp
  have c: "lower w \<in> set critical_keywords \<longrightarrow> classify_issue (pre @ w @ post) = ''CRITICAL''"
  proof
    assume w: "lower w \<in> set critical_keywords"
    have "lower (pre @ w @ post) = lower pre @ lower w @ lower post"
      by (simp add: lower_append)
    with w have "\<exists>k \<in> set critical_keywords. \<exists>p q. lower (pre @ w @ post) = p @ k @ q"
      by blast
    then show "classify_issue (pre @ w @ post) = ''CRITICAL''"
      by (simp only: a if_True)
  qed
  from a b c show ?thesis by blast
qed

text \<open>
  C5 at a text with the CRITICAL keyword ``reentrancy'' and the MEDIUM keywords ``timestamp''
  and ``block.timestamp'', and at a text that spells ``overflow'' in mixed case.
\<close>

theorem classify_issue_first_match_witness:
  "(\<exists>k \<in> set critical_keywords. sublist k (lower ''Reentrancy guarded by block.timestamp''))
   \<and> (\<exists>k \<in> set medium_keywords. sublist k (lower ''Reentrancy guarded by block.timestamp''))
   \<and> classify_issue ''Reentrancy guarded by block.timestamp'' = ''CRITICAL''
   \<and> lower ''OverFlow'' \<in> set critical_keywords
   \<and> classify_issue (''an '' @ ''OverFlow'' @ '' == 0'') = ''CRITICAL''"
proof -
  have h1: "\<exists>k \<in> set critical_keywords. sublist k (lower ''Reentrancy guarded by block.timestamp'')"
    by code_simp
  have h2: "\<exists>k \<in> set medium_keywords. sublist k (lower ''Reentrancy guarded by block.timestamp'')"
    by code_simp
  have h3: "lower ''OverFlow'' \<in> set critical_keywords"
    by code_simp
  from h1 h2 h3
    classify_issue_first_match [of "''Reentrancy guarded by block.timestamp''" "''OverFlow''"
      "''an ''" "'' == 0''"]
  show ?thesis by blast
qed

lemma foldl_analyze_step_single:
  "analyze_step [(''CRITICAL'', a), (''MEDIUM'', b), (''MINOR'', c)] p =
     [(''CRITICAL'', a @ in_bucket ''CRITICAL'' [p]),
      (''MEDIUM'', b @ in_bucket ''MEDIUM'' [p]),
      (''MINOR'', c @ in_bucket ''MINOR'' [p])]"
proof (cases "dumped p")
  case None
  then show ?thesis
    by (simp add: analyze_step_def dict_append_def in_bucket_def bucket_of_def)
next
  case (Some content)
  from classify_issue_cases [of content] show ?thesis
    using Some by (auto simp add: analyze_step_def dict_append_def in_bucket_def bucket_of_def)
qed

lemma in_bucket_Cons: "in_bucket b (p # ps) = in_bucket b [p] @ in_bucket b ps"
  by (simp add: in_bucket_def)

lemma foldl_analyze_step:
  "foldl analyze_step [(''CRITICAL'', a), (''MEDIUM'', b), (''MINOR'', c)] paths =
     [(''CRITICAL'', a @ in_bucket ''CRITICAL'' paths),
      (''MEDIUM'', b @ in_bucket ''MEDIUM'' paths),
      (''MINOR'', c @ in_bucket ''MINOR'' paths)]"
proof (induction paths arbitrary: a b c)
  case Nil
  show ?case by (simp add: in_bucket_def)
next
  case (Cons p ps)
  show ?case
    by (simp only: foldl_Cons foldl_analyze_step_single Cons.IH append_assoc in_bucket_Cons [of _ p ps])
qed

lemma analyze_reports_buckets:
  "analyze_reports paths =
     [(''CRITICAL'', in_bucket ''CRITICAL'' paths),
      (''MEDIUM'', in_bucket ''MEDIUM'' paths),
      (''MINOR'', in_bucket ''MINOR'' paths)]"
  unfolding analyze_reports_def by (simp add: foldl_analyze_step)

lemma write_retest_plan_result:
  assumes "map_of summary ''CRITICAL'' = Some critical"
    and "map_of summary ''MEDIUM'' = Some medium"
  shows "write_retest_plan ts dir summary =
     Inr \<lparr>timestamp = ts, results_dir = dir,
          severity_counts = map (\<lambda>kv. (fst kv, length (snd kv))) summary,
          files = summary,
          recommended_actions =
            (if critical \<noteq> [] then full_actions
             else if medium \<noteq> [] then analysis_actions else [])\<rparr>"
  using assms by (simp add: write_retest_plan_def subscript_def on_ok_def)

text \<open>
  C2. The plan's \<open>recommended_actions\<close> is the full list of seven actions when the CRITICAL
  bucket holds a file, the three analysis actions when the MEDIUM bucket holds a file and
  the CRITICAL bucket none, and empty otherwise: for any summary with these two keys, and
  for the summary of any list of report files. For an empty report directory the actions are
  empty and every count is 0.
\<close>

theorem retest_plan_actions:
  "(map_of summary ''CRITICAL'' = Some critical \<and> map_of summary ''MEDIUM'' = Some medium \<longrightarrow>
      (\<exists>plan. write_retest_plan ts dir summary = Inr plan \<and> files plan = summary \<and>
         recommended_actions plan =
           (if critical \<noteq> [] then
              [''run_slither'', ''run_mythril'', ''forge_test'', ''measure_tte'',
               ''measure_tte_improved'', ''aggregate_metrics'', ''plot_metrics'']
            else if medium \<noteq> [] then [''run_slither'', ''run_mythril'', ''aggregate_metrics'']
            else [])))
   \<and> (\<exists>plan. write_retest_plan ts dir (analyze_reports paths) = Inr plan \<and>
         recommended_actions plan =
           (if \<exists>p \<in> set paths. bucket_of p = ''CRITICAL'' then
              [''run_slither'', ''run_mythril'', ''forge_test'', ''measure_tte'',
               ''measure_tte_improved'', ''aggregate_metrics'', ''plot_metrics'']
            else if \<exists>p \<in> set paths. bucket_of p = ''MEDIUM'' then
              [''run_slither'', ''run_mythril'', ''aggregate_metrics'']
            else []))
   \<and> write_retest_plan ts dir (analyze_reports []) =
       Inr \<lparr>timestamp = ts, results_dir = dir,
            severity_counts = [(''CRITICAL'', 0), (''MEDIUM'', 0), (''MINOR'', 0)],
            files = [(''CRITICAL'', []), (''MEDIUM'', []), (''MINOR'', [])],
            recommended_actions = []\<rparr>"
proof (intro conjI impI)
  assume "map_of summary ''CRITICAL'' = Some critical \<and> map_of summary ''MEDIUM'' = Some medium"
  then show "\<exists>plan. write_retest_plan ts dir summary = Inr plan \<and> files plan = summary \<and>
         recommended_actions plan =
           (if critical \<noteq> [] then
              [''run_slither'', ''run_mythril'', ''forge_test'', ''measure_tte'',
               ''measure_tte_improved'', ''aggregate_metrics'', ''plot_metrics'']
            else if medium \<noteq> [] then [''run_slither'', ''run_mythril'', ''aggregate_metrics'']
            else [])"
    by (simp add: write_retest_plan_result full_actions_def analysis_actions_def)
next
  have nonempty: "(in_bucket b paths \<noteq> []) = (\<exists>p \<in> set paths. bucket_of p = b)" for b
    by (auto simp add: in_bucket_def filter_empty_conv)
  have "write_retest_plan ts dir (analyze_reports paths) =
     Inr \<lparr>timestamp = ts, results_dir = dir,
          severity_counts = map (\<lambda>kv. (fst kv, length (snd kv))) (analyze_reports paths),
          files = analyze_reports paths,
          recommended_actions =
            (if in_bucket ''CRITICAL'' paths \<noteq> [] then full_actions
             else if in_bucket ''MEDIUM'' paths \<noteq> [] then analysis_actions else [])\<rparr>"
    by (rule write_retest_plan_result) (simp_all add: analyze_reports_buckets)
  then show "\<exists>plan. write_retest_plan ts dir (analyze_reports paths) = Inr plan \<and>
         recommended_actions plan =
           (if \<exists>p \<in> set paths. bucket_of p = ''CRITICAL'' then
              [''run_slither'', ''run_mythril'', ''forge_test'', ''measure_tte'',
               ''measure_tte_improved'', ''aggregate_metrics'', ''plot_metrics'']
            else if \<exists>p \<in> set paths. bucket_of p = ''MEDIUM'' then
              [''run_slither'', ''run_mythril'', ''aggregate_metrics'']
            else [])"
    by (simp add: nonempty full_actions_def analysis_actions_def)
next
  show "write_retest_plan ts dir (analyze_reports []) =
       Inr \<lparr>timestamp = ts, results_dir = dir,
            severity_counts = [(''CRITICAL'', 0), (''MEDIUM'', 0), (''MINOR'', 0)],
            files = [(''CRITICAL'', []), (''MEDIUM'', []), (''MINOR'', [])],
            recommended_actions = []\<rparr>"
    by (simp add: analyze_reports_def write_retest_plan_def subscript_def on_ok_def)
qed

text \<open>
  C2 at a summary whose only file is in the MEDIUM bucket, and at a directory of three
  reports of which one is CRITICAL.
\<close>

theorem retest_plan_actions_witness:
  "map_of [(''CRITICAL'', []), (''MEDIUM'', [''mythril_1.json'']), (''MINOR'', [])] ''CRITICAL'' = Some []
   \<and> map_of [(''CRITICAL'', []), (''MEDIUM'', [''mythril_1.json'']), (''MINOR'', [])] ''MEDIUM''
       = Some [''mythril_1.json'']
   \<and> (\<exists>plan. write_retest_plan ''20250101T000000Z'' ''results/batchregistryresults''
                [(''CRITICAL'', []), (''MEDIUM'', [''mythril_1.json'']), (''MINOR'', [])] = Inr plan
         \<and> recommended_actions plan = [''run_slither'', ''run_mythril'', ''aggregate_metrics''])
   \<and> (\<exists>p \<in> set sample_reports. bucket_of p = ''CRITICAL'')
   \<and> (\<exists>plan. write_retest_plan ''20250101T000000Z'' ''results/batchregistryresults''
                (analyze_reports sample_reports) = Inr plan
         \<and> recommended_actions plan =
             [''run_slither'', ''run_mythril'', ''forge_test'', ''measure_tte'',
              ''measure_tte_improved'', ''aggregate_metrics'', ''plot_metrics''])"
proof -
  note inst = retest_plan_actions [of
      "[(''CRITICAL'', []), (''MEDIUM'', [''mythril_1.json'']), (''MINOR'', [])]"
      "[]" "[''mythril_1.json'']" "''20250101T000000Z''" "''results/batchregistryresults''"
      sample_reports]
  have c: "\<exists>p \<in> set sample_reports. bucket_of p = ''CRITICAL''"
    by code_simp
  have m1: "map_of [(''CRITICAL'', []), (''MEDIUM'', [''mythril_1.json'']), (''MINOR'', [])]
      ''CRITICAL'' = Some []"
    by simp
  have m2: "map_of [(''CRITICAL'', []), (''MEDIUM'', [''mythril_1.json'']), (''MINOR'', [])]
      ''MEDIUM'' = Some [''mythril_1.json'']"
    by simp
  from inst [THEN conjunct1] m1 m2
  obtain plan where
    "write_retest_plan ''20250101T000000Z'' ''results/batchregistryresults''
       [(''CRITICAL'', []), (''MEDIUM'', [''mythril_1.json'']), (''MINOR'', [])] = Inr plan"
    and "recommended_actions plan =
       (if ([] :: string list) \<noteq> [] then
              [''run_slither'', ''run_mythril'', ''forge_test'', ''measure_tte'',
               ''measure_tte_improved'', ''aggregate_metrics'', ''plot_metrics'']
        else if [''mythril_1.json''] \<noteq> [] then [''run_slither'', ''run_mythril'', ''aggregate_metrics'']
        else [])"
    by (elim impE exE conjE) (rule conjI)
  then have a: "\<exists>plan. write_retest_plan ''20250101T000000Z'' ''results/batchregistryresults''
                [(''CRITICAL'', []), (''MEDIUM'', [''mythril_1.json'']), (''MINOR'', [])] = Inr plan
         \<and> recommended_actions plan = [''run_slither'', ''run_mythril'', ''aggregate_metrics'']"
    by simp
  from inst [THEN conjunct2, THEN conjunct1] c
  have b: "\<exists>plan. write_retest_plan ''20250101T000000Z'' ''results/batchregistryresults''
                (analyze_reports sample_reports) = Inr plan
         \<and> recommended_actions plan =
             [''run_slither'', ''run_mythril'', ''forge_test'', ''measure_tte'',
              ''measure_tte_improved'', ''aggregate_metrics'', ''plot_metrics'']"
    by (simp only: if_True)
  from m1 m2 a c b show ?thesis by (intro conjI)
qed

text \<open>
  C10. The summary of any list of report files has exactly the keys CRITICAL, MEDIUM and
  MINOR, and in the plan each count is the length of the file list of the same bucket. A
  file that does not load is listed in MINOR and in no other bucket, so when no file loads
  the actions are empty, and the files that do not load never change the actions.
\<close>

theorem analyze_reports_summary:
  "map fst (analyze_reports paths) = [''CRITICAL'', ''MEDIUM'', ''MINOR'']
   \<and> (\<exists>plan. write_retest_plan ts dir (analyze_reports paths) = Inr plan
        \<and> files plan = analyze_reports paths
        \<and> map fst (severity_counts plan) = [''CRITICAL'', ''MEDIUM'', ''MINOR'']
        \<and> (\<forall>b fs. map_of (files plan) b = Some fs
              \<longrightarrow> map_of (severity_counts plan) b = Some (length fs))
        \<and> ((\<forall>p \<in> set paths. dumped p = None) \<longrightarrow> recommended_actions plan = [])
        \<and> (\<exists>plan'. write_retest_plan ts dir
                       (analyze_reports (filter (\<lambda>p. dumped p \<noteq> None) paths)) = Inr plan'
              \<and> recommended_actions plan = recommended_actions plan'))
   \<and> (\<forall>p \<in> set paths. dumped p = None \<longrightarrow>
         map_of (analyze_reports paths) ''MINOR'' = Some (in_bucket ''MINOR'' paths)
         \<and> base p \<in> set (in_bucket ''MINOR'' paths)
         \<and> base p \<notin> set (in_bucket ''CRITICAL'' [p]) \<and> base p \<notin> set (in_bucket ''MEDIUM'' [p]))"
proof (intro conjI)
  show "map fst (analyze_reports paths) = [''CRITICAL'', ''MEDIUM'', ''MINOR'']"
    by (simp add: analyze_reports_buckets)
next
  let ?readable = "filter (\<lambda>p. dumped p \<noteq> None) paths"
  let ?acts = "\<lambda>ps. if in_bucket ''CRITICAL'' ps \<noteq> [] then full_actions
             else if in_bucket ''MEDIUM'' ps \<noteq> [] then analysis_actions else []"
  let ?plan = "\<lambda>ps. \<lparr>timestamp = ts, results_dir = dir,
          severity_counts = map (\<lambda>kv. (fst kv, length (snd kv))) (analyze_reports ps),
          files = analyze_reports ps, recommended_actions = ?acts ps\<rparr>"
  have res: "write_retest_plan ts dir (analyze_reports ps) = Inr (?plan ps)" for ps
    by (rule write_retest_plan_result) (simp_all add: analyze_reports_buckets)
  have unreadable: "dumped p = None \<Longrightarrow> bucket_of p = ''MINOR''" for p
    by (simp add: bucket_of_def)
  have same: "b \<noteq> ''MINOR'' \<Longrightarrow> in_bucket b ?readable = in_bucket b paths" for b
  proof -
    assume b: "b \<noteq> ''MINOR''"
    have "filter (\<lambda>p. dumped p \<noteq> None \<and> bucket_of p = b) paths =
          filter (\<lambda>p. bucket_of p = b) paths"
      by (rule filter_cong) (use b unreadable in auto)
    then show ?thesis by (simp add: in_bucket_def del: not_None_eq)
  qed
  have same_critical: "in_bucket ''CRITICAL'' ?readable = in_bucket ''CRITICAL'' paths"
    by (rule same) simp
  have same_medium: "in_bucket ''MEDIUM'' ?readable = in_bucket ''MEDIUM'' paths"
    by (rule same) simp
  have acts_same: "?acts paths = ?acts ?readable"
    by (simp only: same_critical same_medium)
  have all_minor: "?acts paths = []" if "\<forall>p \<in> set paths. dumped p = None"
  proof -
    have "in_bucket ''CRITICAL'' paths = []" "in_bucket ''MEDIUM'' paths = []"
      using that unreadable by (auto simp add: in_bucket_def filter_empty_conv)
    then show ?thesis by simp
  qed
  have counts: "\<forall>b fs. map_of (files (?plan paths)) b = Some fs
              \<longrightarrow> map_of (severity_counts (?plan paths)) b = Some (length fs)"
    by (simp add: analyze_reports_buckets)
  have keys: "map fst (severity_counts (?plan paths)) = [''CRITICAL'', ''MEDIUM'', ''MINOR'']"
    by (simp add: analyze_reports_buckets)
  have later: "\<exists>plan'. write_retest_plan ts dir (analyze_reports ?readable) = Inr plan'
              \<and> recommended_actions (?plan paths) = recommended_actions plan'"
  proof (intro exI conjI)
    show "write_retest_plan ts dir (analyze_reports ?readable) = Inr (?plan ?readable)"
      by (rule res)
    show "recommended_actions (?plan paths) = recommended_actions (?plan ?readable)"
      using acts_same by simp
  qed
  show "\<exists>plan. write_retest_plan ts dir (analyze_reports paths) = Inr plan
        \<and> files plan = analyze_reports paths
        \<and> map fst (severity_counts plan) = [''CRITICAL'', ''MEDIUM'', ''MINOR'']
        \<and> (\<forall>b fs. map_of (files plan) b = Some fs
              \<longrightarrow> map_of (severity_counts plan) b = Some (length fs))
        \<and> ((\<forall>p \<in> set paths. dumped p = None) \<longrightarrow> recommended_actions plan = [])
        \<and> (\<exists>plan'. write_retest_plan ts dir (analyze_reports ?readable) = Inr plan'
              \<and> recommended_actions plan = recommended_actions plan')"
  proof (rule exI [of _ "?plan paths"], intro conjI impI)
    show "write_retest_plan ts dir (analyze_reports paths) = Inr (?plan paths)"
      by (rule res)
    show "files (?plan paths) = analyze_reports paths"
      by simp
    show "map fst (severity_counts (?plan paths)) = [''CRITICAL'', ''MEDIUM'', ''MINOR'']"
      by (rule keys)
    show "\<forall>b fs. map_of (files (?plan paths)) b = Some fs
              \<longrightarrow> map_of (severity_counts (?plan paths)) b = Some (length fs)"
      by (rule counts)
    show "recommended_actions (?plan paths) = []" if "\<forall>p \<in> set paths. dumped p = None"
      using all_minor [OF that] by simp
    show "\<exists>plan'. write_retest_plan ts dir (analyze_reports ?readable) = Inr plan'
              \<and> recommended_actions (?plan paths) = recommended_actions plan'"
      by (rule later)
  qed
next
  show "\<forall>p \<in> set paths. dumped p = None \<longrightarrow>
         map_of (analyze_reports paths) ''MINOR'' = Some (in_bucket ''MINOR'' paths)
         \<and> base p \<in> set (in_bucket ''MINOR'' paths)
         \<and> base p \<notin> set (in_bucket ''CRITICAL'' [p]) \<and> base p \<notin> set (in_bucket ''MEDIUM'' [p])"
    by (auto simp add: analyze_reports_buckets in_bucket_def bucket_of_def)
qed


text \<open>C10 at a directory whose only report does not load.\<close>

theorem analyze_reports_summary_witness:
  "map dumped broken_only = [None]
   \<and> (\<exists>plan. write_retest_plan ''20250101T000000Z'' ''results/batchregistryresults''
                (analyze_reports broken_only) = Inr plan
         \<and> map_of (files plan) ''MINOR'' = Some [''slither_broken.json'']
         \<and> map_of (severity_counts plan) ''MINOR'' = Some 1
         \<and> recommended_actions plan = [])
   \<and> ''slither_broken.json'' \<in> set (in_bucket ''MINOR'' broken_only)"
proof -
  note inst = analyze_reports_summary [of broken_only "''20250101T000000Z''"
      "''results/batchregistryresults''"]
  have unreadable: "\<forall>p \<in> set broken_only. dumped p = None"
    by (simp add: broken_only_def)
  have summary: "analyze_reports broken_only =
      [(''CRITICAL'', []), (''MEDIUM'', []), (''MINOR'', [''slither_broken.json''])]"
    by code_simp
  from inst [THEN conjunct2, THEN conjunct1] obtain plan where
    plan: "write_retest_plan ''20250101T000000Z'' ''results/batchregistryresults''
                (analyze_reports broken_only) = Inr plan"
    and files: "files plan = analyze_reports broken_only"
    and counts: "\<forall>b fs. map_of (files plan) b = Some fs
              \<longrightarrow> map_of (severity_counts plan) b = Some (length fs)"
    and acts: "(\<forall>p \<in> set broken_only. dumped p = None) \<longrightarrow> recommended_actions plan = []"
    by (elim exE conjE)
  have minor: "map_of (files plan) ''MINOR'' = Some [''slither_broken.json'']"
    by (simp add: files summary)
  with counts have one: "map_of (severity_counts plan) ''MINOR'' = Some 1"
    by fastforce
  from acts unreadable have none: "recommended_actions plan = []"
    by (rule mp)
  from inst [THEN conjunct2, THEN conjunct2] unreadable
  have listed: "''slither_broken.json'' \<in> set (in_bucket ''MINOR'' broken_only)"
    by (simp add: broken_only_def)
  from plan minor one none have "\<exists>plan. write_retest_plan ''20250101T000000Z''
         ''results/batchregistryresults'' (analyze_reports broken_only) = Inr plan
         \<and> map_of (files plan) ''MINOR'' = Some [''slither_broken.json'']
         \<and> map_of (severity_counts plan) ''MINOR'' = Some 1
         \<and> recommended_actions plan = []"
    by (intro exI conjI)
  moreover have "map dumped broken_only = [None]"
    by (simp add: broken_only_def)
  ultimately show ?thesis
    using listed by (intro conjI)
qed

section \<open>Properties of the scoring engine\<close>

lemma dict_update_keys_distinct:
  "distinct (map fst d) \<Longrightarrow> distinct (map fst (dict_update d items))"
  unfolding dict_update_def
  by (induction items arbitrary: d) (simp_all add: distinct_update)

lemma dict_update_subset: "set (dict_update d items) \<subseteq> set d \<union> set items"
  unfolding dict_update_def
proof (induction items arbitrary: d)
  case Nil
  show ?case by simp
next
  case (Cons kv items)
  have "set (AList.update (fst kv) (snd kv) d) \<subseteq> insert kv (set d)"
    by (induction d) auto
  with Cons [of "AList.update (fst kv) (snd kv) d"] show ?case
    by auto
qed

lemma sev_map_distinct: "distinct (map fst (sev_map W))"
  unfolding sev_map_def by (rule dict_update_keys_distinct) simp

lemma sev_map_nonneg:
  assumes "\<forall>kv \<in> set W. 0 \<le> snd kv"
  shows "\<forall>kv \<in> set (sev_map W). 0 \<le> snd kv"
proof
  fix kv assume "kv \<in> set (sev_map W)"
  then have "kv \<in> set (map (\<lambda>kv. (capitalize (fst kv), snd kv)) W)"
    using dict_update_subset [of "[]" "map (\<lambda>kv. (capitalize (fst kv), snd kv)) W"]
    unfolding sev_map_def by auto
  with assms show "0 \<le> snd kv" by auto
qed

lemma foldl_penalty:
  "foldl (\<lambda>p kv. p + g kv) a sm = a + sum_list (map g sm)" for a :: int
  by (induction sm arbitrary: a) simp_all

lemma score_row_sum:
  "score_row sm row = max 0 (100 - (\<Sum>kv\<leftarrow>sm. int (dict_get row (fst kv) 0) * snd kv))"
  by (simp add: score_row_def foldl_penalty)

lemma count_cs_absent: "s \<notin> set (map severity kept) \<Longrightarrow> count_cs kept c s = 0"
  by (auto simp add: count_cs_def filter_empty_conv)

lemma counts_row_get: "dict_get (counts_row kept c) s 0 = count_cs kept c s"
proof -
  let ?cols = "sort (remdups (map severity kept))"
  have cols: "set ?cols = set (map severity kept)" by simp
  have first: "map_of (map (\<lambda>s. (s, count_cs kept c s)) ?cols) s =
      (if s \<in> set ?cols then Some (count_cs kept c s) else None)"
    by (simp add: map_of_map_restrict restrict_map_def del: set_sort set_remdups set_map)
  have second: "map_of (map (\<lambda>s. (s, 0::nat)) xs) s = None \<or>
      map_of (map (\<lambda>s. (s, 0::nat)) xs) s = Some 0" for xs
    by (simp add: map_of_map_restrict restrict_map_def)
  show ?thesis
  proof (cases "s \<in> set ?cols")
    case True
    then show ?thesis
      unfolding counts_row_def Let_def dict_get_def map_of_append
      by (simp add: first del: set_sort set_remdups set_map)
  next
    case False
    then have zero: "count_cs kept c s = 0"
      using count_cs_absent [of s kept c] by simp
    from False have none: "map_of (map (\<lambda>s. (s, count_cs kept c s)) ?cols) s = None"
      using first by simp
    from second [of "filter (\<lambda>s. s \<notin> set ?cols) [''Critical'', ''High'', ''Medium'']"]
    show ?thesis
      unfolding counts_row_def Let_def dict_get_def map_of_append
      by (auto simp add: none zero map_add_def)
  qed
qed

lemma count_cs_kept:
  "count_cs (filter (\<lambda>f. severity f \<in> K) df) c s = (if s \<in> K then count_cs df c s else 0)"
proof -
  have "filter (\<lambda>f. finding.contract f = c \<and> severity f = s) (filter (\<lambda>f. severity f \<in> K) df) =
        (if s \<in> K then filter (\<lambda>f. finding.contract f = c \<and> severity f = s) df else [])"
    by (auto simp add: filter_empty_conv intro: filter_cong)
  then show ?thesis by (simp add: count_cs_def)
qed

text \<open>When the table is returned, and the table row by row.\<close>

lemma aggregate_scores_returns:
  fixes df :: "('c::linorder) finding list"
  shows "(\<exists>rows. aggregate_scores df W = Inr rows) =
     (\<exists>f \<in> set df. severity f \<in> set (map fst (sev_map W)))"
  unfolding aggregate_scores_def Let_def by (auto simp add: filter_empty_conv)

lemma aggregate_scores_rows:
  fixes df :: "('c::linorder) finding list"
  assumes "aggregate_scores df W = Inr rows" and "r \<in> set rows"
  shows "\<exists>f \<in> set df. finding.contract f = contract r \<and> severity f \<in> set (map fst (sev_map W))"
    and "Critical r = (if ''Critical'' \<in> set (map fst (sev_map W)) then count_cs df (contract r) ''Critical'' else 0)"
    and "High r = (if ''High'' \<in> set (map fst (sev_map W)) then count_cs df (contract r) ''High'' else 0)"
    and "Medium r = (if ''Medium'' \<in> set (map fst (sev_map W)) then count_cs df (contract r) ''Medium'' else 0)"
    and "SecurityScore r =
      max 0 (100 - (\<Sum>kv\<leftarrow>sev_map W. int (count_cs df (contract r) (fst kv)) * snd kv))"
proof -
  let ?K = "set (map fst (sev_map W))"
  let ?kept = "filter (\<lambda>f. severity f \<in> ?K) df"
  from assms(1) have "rows = map (\<lambda>c. \<lparr>contract = c,
                 Critical = dict_get (counts_row ?kept c) ''Critical'' 0,
                 High = dict_get (counts_row ?kept c) ''High'' 0,
                 Medium = dict_get (counts_row ?kept c) ''Medium'' 0,
                 SecurityScore = score_row (sev_map W) (counts_row ?kept c)\<rparr>)
           (sort (remdups (map finding.contract ?kept)))"
    unfolding aggregate_scores_def Let_def by (simp split: if_splits)
  with assms(2) obtain c where c: "c \<in> set (map finding.contract ?kept)"
    and r: "r = \<lparr>contract = c,
                 Critical = dict_get (counts_row ?kept c) ''Critical'' 0,
                 High = dict_get (counts_row ?kept c) ''High'' 0,
                 Medium = dict_get (counts_row ?kept c) ''Medium'' 0,
                 SecurityScore = score_row (sev_map W) (counts_row ?kept c)\<rparr>"
    by auto
  from c r show "\<exists>f \<in> set df. finding.contract f = contract r \<and> severity f \<in> ?K"
    by auto
  show "Critical r = (if ''Critical'' \<in> ?K then count_cs df (contract r) ''Critical'' else 0)"
    by (simp only: r counts_row_get count_cs_kept score_entry.simps)
  show "High r = (if ''High'' \<in> ?K then count_cs df (contract r) ''High'' else 0)"
    by (simp only: r counts_row_get count_cs_kept score_entry.simps)
  show "Medium r = (if ''Medium'' \<in> ?K then count_cs df (contract r) ''Medium'' else 0)"
    by (simp only: r counts_row_get count_cs_kept score_entry.simps)
  have "(\<Sum>kv\<leftarrow>sev_map W. int (dict_get (counts_row ?kept c) (fst kv) 0) * snd kv) =
        (\<Sum>kv\<leftarrow>sev_map W. int (count_cs df c (fst kv)) * snd kv)"
    by (rule arg_cong [where f = sum_list], rule map_cong)
       (simp_all add: counts_row_get count_cs_kept)
  then show "SecurityScore r =
      max 0 (100 - (\<Sum>kv\<leftarrow>sev_map W. int (count_cs df (contract r) (fst kv)) * snd kv))"
    by (simp add: r score_row_sum)
qed

lemma aggregate_scores_has_row:
  fixes df :: "('c::linorder) finding list"
  assumes "aggregate_scores df W = Inr rows"
    and "f \<in> set df" and "severity f \<in> set (map fst (sev_map W))"
  shows "\<exists>r \<in> set rows. contract r = finding.contract f"
proof -
  let ?kept = "filter (\<lambda>f. severity f \<in> set (map fst (sev_map W))) df"
  from assms(1) have "map contract rows = sort (remdups (map finding.contract ?kept))"
    unfolding aggregate_scores_def Let_def by (auto simp add: comp_def split: if_splits)
  then have "set (map contract rows) = set (map finding.contract ?kept)"
    by simp
  moreover from assms(2,3) have "finding.contract f \<in> set (map finding.contract ?kept)"
    by simp
  ultimately have "finding.contract f \<in> set (map contract rows)"
    by simp
  then show ?thesis by auto
qed

lemma sum_by_key:
  fixes g :: "string \<Rightarrow> int"
  assumes "distinct (map fst sm)"
  shows "(\<Sum>kv\<leftarrow>sm. g (fst kv) * snd kv) = (\<Sum>k\<in>set (map fst sm). g k * dict_get sm k 0)"
  using assms
proof (induction sm)
  case Nil
  show ?case by simp
next
  case (Cons kv sm)
  then have fresh: "fst kv \<notin> set (map fst sm)" and dist: "distinct (map fst sm)"
    by simp_all
  have other: "dict_get (kv # sm) k 0 = dict_get sm k 0" if "k \<in> set (map fst sm)" for k
  proof -
    from that fresh have "k \<noteq> fst kv" by blast
    then show ?thesis by (cases kv) (simp add: dict_get_def)
  qed
  have head: "dict_get (kv # sm) (fst kv) 0 = snd kv"
    by (cases kv) (simp add: dict_get_def)
  have rest: "(\<Sum>k\<in>set (map fst sm). g k * dict_get (kv # sm) k 0) =
              (\<Sum>k\<in>set (map fst sm). g k * dict_get sm k 0)"
    by (rule sum.cong) (simp_all only: other)
  have "(\<Sum>k\<in>set (map fst (kv # sm)). g k * dict_get (kv # sm) k 0) =
        g (fst kv) * dict_get (kv # sm) (fst kv) 0 +
        (\<Sum>k\<in>set (map fst sm). g k * dict_get (kv # sm) k 0)"
    using fresh by simp
  also have "\<dots> = g (fst kv) * snd kv + (\<Sum>k\<in>set (map fst sm). g k * dict_get sm k 0)"
    by (simp only: rest head)
  finally show ?case
    using Cons.IH [OF dist] by simp
qed

lemma sum_three_keys:
  fixes g :: "string \<Rightarrow> int"
  assumes "set (map fst (sev_map W)) = {''Critical'', ''High'', ''Medium''}"
  shows "(\<Sum>kv\<leftarrow>sev_map W. g (fst kv) * snd kv) =
         g ''Critical'' * dict_get (sev_map W) ''Critical'' 0 +
         g ''High'' * dict_get (sev_map W) ''High'' 0 +
         g ''Medium'' * dict_get (sev_map W) ''Medium'' 0"
  by (simp only: sum_by_key [OF sev_map_distinct] assms) simp

lemma aggregate_scores_drop:
  fixes xs :: "('c::linorder) finding list"
  assumes "severity f \<notin> set (map fst (sev_map W))"
  shows "aggregate_scores (xs @ f # ys) W = aggregate_scores (xs @ ys) W"
  using assms unfolding aggregate_scores_def by simp

text \<open>
  C1, amended. For every list of findings and every weight table, the score of each row of
  the table returned is \<open>max 0 (100 - penalty)\<close>, where the penalty sums count times weight
  over the keys of the capitalised weight table. When these keys are exactly Critical, High
  and Medium, as with the default table, the sum runs over these three only, the three counts
  of the row are the numbers of findings of the contract with that severity, and a finding
  of severity Low, Info or Unknown changes nothing of what \<^verbatim>\<open>aggregate_scores\<close> does. The
  table is returned when a finding has a severity that is a key. With the default weights,
  the counts 1, 0 and 2 give the score 93.
\<close>

theorem security_score_formula:
  fixes df :: "('c::linorder) finding list"
  shows
  "(aggregate_scores df W = Inr rows \<longrightarrow>
      (\<forall>r \<in> set rows.
         SecurityScore r =
           max 0 (100 - (\<Sum>kv\<leftarrow>sev_map W. int (count_cs df (contract r) (fst kv)) * snd kv))))
   \<and> (set (map fst (sev_map W)) = {''Critical'', ''High'', ''Medium''} \<longrightarrow>
        (aggregate_scores df W = Inr rows \<longrightarrow>
           (\<forall>r \<in> set rows.
              Critical r = count_cs df (contract r) ''Critical'' \<and>
              High r = count_cs df (contract r) ''High'' \<and>
              Medium r = count_cs df (contract r) ''Medium'' \<and>
              SecurityScore r =
                max 0 (100 - (int (Critical r) * dict_get (sev_map W) ''Critical'' 0 +
                              int (High r) * dict_get (sev_map W) ''High'' 0 +
                              int (Medium r) * dict_get (sev_map W) ''Medium'' 0))))
        \<and> (\<forall>f xs ys. severity f \<in> {''Low'', ''Info'', ''Unknown''} \<longrightarrow>
              aggregate_scores (xs @ f # ys) W =
              aggregate_scores (xs @ ys :: 'c finding list) W))
   \<and> ((\<exists>f \<in> set df. severity f \<in> set (map fst (sev_map W))) \<longrightarrow>
        (\<exists>table. aggregate_scores df W = Inr table))
   \<and> score_row (sev_map default_weights) [(''Critical'', 1), (''High'', 0), (''Medium'', 2)] = 93"
proof (intro conjI impI ballI allI)
  fix r assume "aggregate_scores df W = Inr rows" and "r \<in> set rows"
  then show "SecurityScore r =
        max 0 (100 - (\<Sum>kv\<leftarrow>sev_map W. int (count_cs df (contract r) (fst kv)) * snd kv))"
    by (rule aggregate_scores_rows(5))
next
  fix r
  assume keys: "set (map fst (sev_map W)) = {''Critical'', ''High'', ''Medium''}"
    and t: "aggregate_scores df W = Inr rows" and r: "r \<in> set rows"
  from aggregate_scores_rows(2) [OF t r] keys
  show c: "Critical r = count_cs df (contract r) ''Critical''" by simp
  from aggregate_scores_rows(3) [OF t r] keys
  show h: "High r = count_cs df (contract r) ''High''" by simp
  from aggregate_scores_rows(4) [OF t r] keys
  show m: "Medium r = count_cs df (contract r) ''Medium''" by simp
  show "SecurityScore r =
             max 0 (100 - (int (Critical r) * dict_get (sev_map W) ''Critical'' 0 +
                           int (High r) * dict_get (sev_map W) ''High'' 0 +
                           int (Medium r) * dict_get (sev_map W) ''Medium'' 0))"
    by (simp only: aggregate_scores_rows(5) [OF t r]
          sum_three_keys [OF keys, of "\<lambda>s. int (count_cs df (contract r) s)"] c h m)
next
  fix f :: "'c finding" and xs ys :: "'c finding list"
  assume keys: "set (map fst (sev_map W)) = {''Critical'', ''High'', ''Medium''}"
    and f: "severity f \<in> {''Low'', ''Info'', ''Unknown''}"
  from f have "severity f \<notin> {''Critical'', ''High'', ''Medium''}" by auto
  with keys have "severity f \<notin> set (map fst (sev_map W))" by simp
  then show "aggregate_scores (xs @ f # ys) W = aggregate_scores (xs @ ys) W"
    by (rule aggregate_scores_drop)
next
  assume "\<exists>f \<in> set df. severity f \<in> set (map fst (sev_map W))"
  then show "\<exists>table. aggregate_scores df W = Inr table"
    by (simp only: aggregate_scores_returns)
next
  show "score_row (sev_map default_weights) [(''Critical'', 1), (''High'', 0), (''Medium'', 2)] = 93"
    by code_simp
qed

text \<open>
  C1 at the default weights and a contract with one Critical and two Medium findings.
\<close>

theorem security_score_formula_witness:
  "set (map fst (sev_map default_weights)) = {''Critical'', ''High'', ''Medium''}
   \<and> aggregate_scores token_issues default_weights =
       Inr [\<lparr>contract = ''Token'', Critical = 1, High = 0, Medium = 2, SecurityScore = 93\<rparr>]
   \<and> count_cs token_issues ''Token'' ''Critical'' = 1
   \<and> count_cs token_issues ''Token'' ''High'' = 0
   \<and> count_cs token_issues ''Token'' ''Medium'' = 2
   \<and> severity (issue ''Token'' ''Low'') \<in> {''Low'', ''Info'', ''Unknown''}
   \<and> aggregate_scores (token_issues @ issue ''Token'' ''Low'' # []) default_weights =
       aggregate_scores (token_issues @ []) default_weights"
proof -
  let ?r = "\<lparr>contract = ''Token'', Critical = 1, High = 0, Medium = 2, SecurityScore = 93\<rparr>"
  note inst = security_score_formula [of token_issues default_weights "[?r]"]
  have keys: "set (map fst (sev_map default_weights)) = {''Critical'', ''High'', ''Medium''}"
    by code_simp
  have table: "aggregate_scores token_issues default_weights = Inr [?r]"
    by code_simp
  have mem: "?r \<in> set [?r]"
    by simp
  have low: "severity (issue ''Token'' ''Low'') \<in> {''Low'', ''Info'', ''Unknown''}"
    by (simp add: issue_def)
  note both = inst [THEN conjunct2, THEN conjunct1, THEN mp, OF keys]
  from both [THEN conjunct1, THEN mp, OF table, THEN bspec, OF mem]
  have counts: "count_cs token_issues ''Token'' ''Critical'' = 1
      \<and> count_cs token_issues ''Token'' ''High'' = 0
      \<and> count_cs token_issues ''Token'' ''Medium'' = 2"
    by simp
  from both [THEN conjunct2, THEN spec, THEN spec, THEN spec, THEN mp, OF low]
  have drop: "aggregate_scores (token_issues @ issue ''Token'' ''Low'' # []) default_weights =
       aggregate_scores (token_issues @ []) default_weights" .
  from keys table counts low drop show ?thesis
    by (intro conjI) (erule conjunct1 conjunct2 | assumption | simp)+
qed

text \<open>
  C1 as stated fails for a weight table with a fourth key: a weights file that holds
  \<open>Low: 2\<close> makes a Low finding cost two points, so the score 95 is not the 97 that the three
  severities alone give, and the Low finding has changed the score.
\<close>

theorem extra_weight_counterexample:
  "load_weights (Entries [(''Low'', 2)]) =
     Inr [(''Critical'', 5), (''High'', 3), (''Medium'', 1), (''Low'', 2)]
   \<and> aggregate_scores [issue ''Vault'' ''High'', issue ''Vault'' ''Low'']
        [(''Critical'', 5), (''High'', 3), (''Medium'', 1), (''Low'', 2)] =
       Inr [\<lparr>contract = ''Vault'', Critical = 0, High = 1, Medium = 0, SecurityScore = 95\<rparr>]
   \<and> aggregate_scores [issue ''Vault'' ''High'']
        [(''Critical'', 5), (''High'', 3), (''Medium'', 1), (''Low'', 2)] =
       Inr [\<lparr>contract = ''Vault'', Critical = 0, High = 1, Medium = 0, SecurityScore = 97\<rparr>]
   \<and> (95 :: int) \<noteq> max 0 (100 - (0 * 5 + 1 * 3 + 0 * 1))"
  by code_simp

lemma count_cs_Cons_le: "count_cs df c s \<le> count_cs (f # df) c s"
  by (simp add: count_cs_def)

lemma load_weights_nonneg:
  assumes "\<forall>kv \<in> set data. 0 \<le> snd kv"
  shows "\<exists>W. load_weights (Entries data) = Inr W \<and> (\<forall>kv \<in> set W. 0 \<le> snd kv)"
proof -
  let ?W = "dict_update default_weights (dict_update [] data)"
  have "set ?W \<subseteq> set default_weights \<union> set data"
    using dict_update_subset [of default_weights "dict_update [] data"]
      dict_update_subset [of "[]" data] by auto
  moreover have "\<forall>kv \<in> set default_weights. 0 \<le> snd kv"
    by (simp add: default_weights_def)
  ultimately have "\<forall>kv \<in> set ?W. 0 \<le> snd kv"
    using assms by blast
  then show ?thesis by simp
qed

lemma penalty_mono:
  fixes sm :: "(string \<times> int) list"
  assumes "\<forall>kv \<in> set sm. 0 \<le> snd kv" and "\<forall>s. (a s :: nat) \<le> b s"
  shows "(\<Sum>kv\<leftarrow>sm. int (a (fst kv)) * snd kv) \<le> (\<Sum>kv\<leftarrow>sm. int (b (fst kv)) * snd kv)"
proof (rule sum_list_mono)
  fix kv assume "kv \<in> set sm"
  with assms(1) have "0 \<le> snd kv" by blast
  moreover from assms(2) have "int (a (fst kv)) \<le> int (b (fst kv))" by simp
  ultimately show "int (a (fst kv)) * snd kv \<le> int (b (fst kv)) * snd kv"
    by (rule mult_right_mono [rotated])
qed

lemma penalty_nonneg:
  fixes sm :: "(string \<times> int) list"
  assumes "\<forall>kv \<in> set sm. 0 \<le> snd kv"
  shows "0 \<le> (\<Sum>kv\<leftarrow>sm. int (a (fst kv)) * snd kv)"
  by (rule sum_list_nonneg) (use assms in auto)

text \<open>
  C4, amended. For every weight table and every list of findings each score of the table
  returned is at least 0. When no weight of the table is negative, each score is at most
  100, and the score of a contract does not increase when the number of findings grows in
  any cell of contract and severity. A weights file without a negative value loads into such
  a table.
\<close>

theorem security_score_bounds:
  fixes df df' :: "('c::linorder) finding list"
  shows
  "(aggregate_scores df W = Inr rows \<longrightarrow> (\<forall>r \<in> set rows. 0 \<le> SecurityScore r))
   \<and> ((\<forall>kv \<in> set W. 0 \<le> snd kv) \<longrightarrow>
        (aggregate_scores df W = Inr rows \<longrightarrow> (\<forall>r \<in> set rows. SecurityScore r \<le> 100))
        \<and> ((\<forall>c s. count_cs df c s \<le> count_cs df' c s) \<longrightarrow>
             aggregate_scores df W = Inr rows \<longrightarrow> aggregate_scores df' W = Inr rows' \<longrightarrow>
             (\<forall>r \<in> set rows. \<forall>r' \<in> set rows'.
                contract r' = contract r \<longrightarrow> SecurityScore r' \<le> SecurityScore r)))
   \<and> ((\<forall>kv \<in> set data. 0 \<le> snd kv) \<longrightarrow>
        (\<exists>W'. load_weights (Entries data) = Inr W' \<and> (\<forall>kv \<in> set W'. 0 \<le> snd kv)))"
proof (intro conjI impI ballI)
  fix r assume "aggregate_scores df W = Inr rows" and "r \<in> set rows"
  then show "0 \<le> SecurityScore r"
    by (simp add: aggregate_scores_rows(5))
next
  fix r assume nonneg: "\<forall>kv \<in> set W. 0 \<le> snd kv"
    and t: "aggregate_scores df W = Inr rows" and r: "r \<in> set rows"
  from penalty_nonneg [OF sev_map_nonneg [OF nonneg], of "count_cs df (contract r)"]
  show "SecurityScore r \<le> 100"
    by (simp add: aggregate_scores_rows(5) [OF t r])
next
  fix r r'
  assume nonneg: "\<forall>kv \<in> set W. 0 \<le> snd kv"
    and more: "\<forall>c s. count_cs df c s \<le> count_cs df' c s"
    and t: "aggregate_scores df W = Inr rows" and t': "aggregate_scores df' W = Inr rows'"
    and r: "r \<in> set rows" and r': "r' \<in> set rows'"
    and same: "contract r' = contract r"
  from more have "\<forall>s. count_cs df (contract r) s \<le> count_cs df' (contract r) s"
    by simp
  from penalty_mono [OF sev_map_nonneg [OF nonneg] this]
  show "SecurityScore r' \<le> SecurityScore r"
    by (simp add: aggregate_scores_rows(5) [OF t r] aggregate_scores_rows(5) [OF t' r'] same)
next
  assume "\<forall>kv \<in> set data. 0 \<le> snd kv"
  then show "\<exists>W'. load_weights (Entries data) = Inr W' \<and> (\<forall>kv \<in> set W'. 0 \<le> snd kv)"
    by (rule load_weights_nonneg)
qed

text \<open>
  C4 at the table loaded from a weights file that holds \<open>high: 4\<close>, with one and with two
  High findings of one contract.
\<close>

theorem security_score_bounds_witness:
  "list_all (\<lambda>kv. 0 \<le> snd kv) [(''high'', 4 :: int)]
   \<and> load_weights (Entries [(''high'', 4)]) =
       Inr [(''Critical'', 5), (''High'', 3), (''Medium'', 1), (''high'', 4)]
   \<and> list_all (\<lambda>kv. 0 \<le> snd kv) [(''Critical'', 5), (''High'', 3), (''Medium'', 1), (''high'', 4 :: int)]
   \<and> aggregate_scores [issue ''Vault'' ''High'']
        [(''Critical'', 5), (''High'', 3), (''Medium'', 1), (''high'', 4)] =
       Inr [\<lparr>contract = ''Vault'', Critical = 0, High = 1, Medium = 0, SecurityScore = 96\<rparr>]
   \<and> aggregate_scores [issue ''Vault'' ''High'', issue ''Vault'' ''High'']
        [(''Critical'', 5), (''High'', 3), (''Medium'', 1), (''high'', 4)] =
       Inr [\<lparr>contract = ''Vault'', Critical = 0, High = 2, Medium = 0, SecurityScore = 92\<rparr>]
   \<and> (92 :: int) \<le> 96 \<and> (0 :: int) \<le> 96 \<and> (96 :: int) \<le> 100"
proof -
  let ?W = "[(''Critical'', 5), (''High'', 3), (''Medium'', 1), (''high'', 4 :: int)]"
  let ?df = "[issue ''Vault'' ''High'']"
  let ?df' = "[issue ''Vault'' ''High'', issue ''Vault'' ''High'']"
  let ?r = "\<lparr>contract = ''Vault'', Critical = 0, High = 1, Medium = 0, SecurityScore = 96\<rparr>"
  let ?r' = "\<lparr>contract = ''Vault'', Critical = 0, High = 2, Medium = 0, SecurityScore = 92\<rparr>"
  note inst = security_score_bounds [of ?df ?W "[?r]" ?df' "[?r']" "[(''high'', 4)]"]
  have data: "\<forall>kv \<in> set [(''high'', 4 :: int)]. 0 \<le> snd kv" by simp
  have nonneg: "\<forall>kv \<in> set ?W. 0 \<le> snd kv" by simp
  have more: "\<forall>c s. count_cs ?df c s \<le> count_cs ?df' c s"
    by (simp add: count_cs_Cons_le)
  have t: "aggregate_scores ?df ?W = Inr [?r]" by code_simp
  have t': "aggregate_scores ?df' ?W = Inr [?r']" by code_simp
  have r: "?r \<in> set [?r]" by simp
  have r': "?r' \<in> set [?r']" by simp
  have loaded: "load_weights (Entries [(''high'', 4)]) = Inr ?W" by code_simp
  from inst [THEN conjunct1, THEN mp, OF t, THEN bspec, OF r]
  have lower: "(0 :: int) \<le> 96" by simp
  note bounded = inst [THEN conjunct2, THEN conjunct1, THEN mp, OF nonneg]
  from bounded [THEN conjunct1, THEN mp, OF t, THEN bspec, OF r]
  have upper: "(96 :: int) \<le> 100" by simp
  from bounded [THEN conjunct2, THEN mp, OF more, THEN mp, OF t, THEN mp, OF t',
      THEN bspec, OF r, THEN bspec, OF r']
  have mono: "(92 :: int) \<le> 96" by simp
  from data nonneg loaded t t' lower upper mono show ?thesis
    by (simp only: list_all_iff)
qed

text \<open>
  C4 as stated fails for a table with a negative weight, which \<^verbatim>\<open>load_weights\<close> accepts:
  the score is 105 with one Critical finding and grows to 110 with two.
\<close>

theorem negative_weight_counterexample:
  "load_weights (Entries [(''Critical'', -5)]) =
     Inr [(''Critical'', -5), (''High'', 3), (''Medium'', 1)]
   \<and> aggregate_scores [issue ''Vault'' ''Critical'']
        [(''Critical'', -5), (''High'', 3), (''Medium'', 1)] =
       Inr [\<lparr>contract = ''Vault'', Critical = 1, High = 0, Medium = 0, SecurityScore = 105\<rparr>]
   \<and> aggregate_scores [issue ''Vault'' ''Critical'', issue ''Vault'' ''Critical'']
        [(''Critical'', -5), (''High'', 3), (''Medium'', 1)] =
       Inr [\<lparr>contract = ''Vault'', Critical = 2, High = 0, Medium = 0, SecurityScore = 110\<rparr>]"
  by code_simp

lemma aggregate_scores_contracts:
  fixes df :: "('c::linorder) finding list"
  assumes "aggregate_scores df W = Inr rows"
  shows "map contract rows =
     sort (remdups (map finding.contract
       (filter (\<lambda>f. severity f \<in> set (map fst (sev_map W))) df)))"
  using assms unfolding aggregate_scores_def Let_def
  by (auto simp add: comp_def split: if_splits)

text \<open>
  C8, amended. For an empty list of findings the table is the two rows ProductRegistry and
  ProductRegistryImproved, with zero counts and the score 100. For a list in which a finding
  has a severity that is a key of the capitalised weight table, the table is returned, and
  in a table returned for a list that is not empty a contract has a row exactly when one of
  its findings has such a severity; so a contract that appears only under other severities
  has no row in it. No contract has two rows. Nothing is said of a list that is not empty
  and has no finding of such a severity.
\<close>

theorem score_table_rows:
  "main_scores [] W =
     Inr [\<lparr>contract = ''ProductRegistry'', Critical = 0, High = 0, Medium = 0,
           SecurityScore = 100\<rparr>,
          \<lparr>contract = ''ProductRegistryImproved'', Critical = 0, High = 0, Medium = 0,
           SecurityScore = 100\<rparr>]
   \<and> ((\<exists>f \<in> set df. severity f \<in> set (map fst (sev_map W))) \<longrightarrow>
        (\<exists>table. main_scores df W = Inr table))
   \<and> (df \<noteq> [] \<and> main_scores df W = Inr rows \<longrightarrow>
        (\<exists>r \<in> set rows. contract r = c) =
        (\<exists>f \<in> set df. finding.contract f = c \<and> severity f \<in> set (map fst (sev_map W))))
   \<and> (df \<noteq> [] \<and> main_scores df W = Inr rows \<and>
       filter (\<lambda>f. finding.contract f = c \<and> severity f \<in> set (map fst (sev_map W))) df = []
       \<longrightarrow> filter (\<lambda>r. contract r = c) rows = [])
   \<and> (main_scores df W = Inr rows \<longrightarrow> distinct (map contract rows))"
proof (intro conjI impI)
  show "main_scores [] W =
     Inr [\<lparr>contract = ''ProductRegistry'', Critical = 0, High = 0, Medium = 0,
           SecurityScore = 100\<rparr>,
          \<lparr>contract = ''ProductRegistryImproved'', Critical = 0, High = 0, Medium = 0,
           SecurityScore = 100\<rparr>]"
    by (simp add: main_scores_def)
next
  assume weighted: "\<exists>f \<in> set df. severity f \<in> set (map fst (sev_map W))"
  then have "df \<noteq> []" by auto
  moreover from weighted have "\<exists>table. aggregate_scores df W = Inr table"
    by (simp only: aggregate_scores_returns)
  ultimately show "\<exists>table. main_scores df W = Inr table"
    by (simp add: main_scores_def)
next
  have iff: "(\<exists>r \<in> set rows. contract r = c) =
        (\<exists>f \<in> set df. finding.contract f = c \<and> severity f \<in> set (map fst (sev_map W)))"
    if "aggregate_scores df W = Inr rows"
    using aggregate_scores_rows(1) [OF that] aggregate_scores_has_row [OF that]
    by blast
  {
    assume "df \<noteq> [] \<and> main_scores df W = Inr rows"
    then have "aggregate_scores df W = Inr rows"
      by (auto simp add: main_scores_def)
    then show "(\<exists>r \<in> set rows. contract r = c) =
        (\<exists>f \<in> set df. finding.contract f = c \<and> severity f \<in> set (map fst (sev_map W)))"
      by (rule iff)
  }
  {
    assume "df \<noteq> [] \<and> main_scores df W = Inr rows \<and>
       filter (\<lambda>f. finding.contract f = c \<and> severity f \<in> set (map fst (sev_map W))) df = []"
    then have t: "aggregate_scores df W = Inr rows"
      and none: "\<not> (\<exists>f \<in> set df. finding.contract f = c \<and> severity f \<in> set (map fst (sev_map W)))"
      by (auto simp add: main_scores_def filter_empty_conv)
    from none iff [OF t] have "\<not> (\<exists>r \<in> set rows. contract r = c)"
      by simp
    then show "filter (\<lambda>r. contract r = c) rows = []"
      by (simp add: filter_empty_conv)
  }
next
  assume t: "main_scores df W = Inr rows"
  show "distinct (map contract rows)"
  proof (cases "df = []")
    case True
    with t show ?thesis by (auto simp add: main_scores_def)
  next
    case False
    with t have "aggregate_scores df W = Inr rows"
      by (simp add: main_scores_def)
    then show ?thesis
      by (simp add: aggregate_scores_contracts)
  qed
qed

text \<open>
  C8 at a list with a High finding of Vault and a Low finding of Token: the table is
  returned, Vault has a row and Token has none.
\<close>

theorem score_table_rows_witness:
  "vault_issues \<noteq> []
   \<and> (\<exists>f \<in> set vault_issues. finding.contract f = ''Vault'' \<and>
         severity f \<in> set (map fst (sev_map default_weights)))
   \<and> main_scores vault_issues default_weights =
       Inr [\<lparr>contract = ''Vault'', Critical = 0, High = 1, Medium = 0, SecurityScore = 97\<rparr>]
   \<and> (\<exists>r \<in> set [\<lparr>contract = ''Vault'', Critical = 0, High = 1, Medium = 0,
                   SecurityScore = 97 :: int\<rparr>]. contract r = ''Vault'')
   \<and> filter (\<lambda>f. finding.contract f = ''Token'' \<and>
         severity f \<in> set (map fst (sev_map default_weights))) vault_issues = []
   \<and> filter (\<lambda>r. contract r = ''Token'')
       [\<lparr>contract = ''Vault'', Critical = 0, High = 1, Medium = 0, SecurityScore = 97 :: int\<rparr>] = []"
proof -
  let ?rows = "[\<lparr>contract = ''Vault'', Critical = 0, High = 1, Medium = 0,
                 SecurityScore = 97 :: int\<rparr>]"
  have ne: "vault_issues \<noteq> []"
    by (simp add: vault_issues_def)
  have vault: "\<exists>f \<in> set vault_issues. finding.contract f = ''Vault'' \<and>
         severity f \<in> set (map fst (sev_map default_weights))"
    by code_simp
  have token: "filter (\<lambda>f. finding.contract f = ''Token'' \<and>
         severity f \<in> set (map fst (sev_map default_weights))) vault_issues = []"
    by code_simp
  have table: "main_scores vault_issues default_weights = Inr ?rows"
    by code_simp
  from score_table_rows [of default_weights vault_issues ?rows "''Vault''",
      THEN conjunct2, THEN conjunct2, THEN conjunct1, THEN mp, OF conjI, OF ne table] vault
  have row: "\<exists>r \<in> set ?rows. contract r = ''Vault''"
    by (rule ssubst)
  from score_table_rows [of default_weights vault_issues ?rows "''Token''",
      THEN conjunct2, THEN conjunct2, THEN conjunct2, THEN conjunct1, THEN mp,
      OF conjI, OF ne, OF conjI, OF table token]
  have no_row: "filter (\<lambda>r. contract r = ''Token'') ?rows = []" .
  from ne vault table row token no_row show ?thesis
    by (intro conjI)
qed

text \<open>
  C8 as stated fails: Token appears in the list of findings, only under Low, and the table
  has the row of Vault alone.
\<close>

theorem unweighted_contract_counterexample:
  "main_scores [issue ''Vault'' ''High'', issue ''Token'' ''Low''] default_weights =
     Inr [\<lparr>contract = ''Vault'', Critical = 0, High = 1, Medium = 0, SecurityScore = 97\<rparr>]"
  by code_simp

section \<open>Properties of the report parsers\<close>

lemma norm_sev_text: "\<exists>t. norm_sev (JStr s) = Inr t"
  by (simp add: Let_def)

lemma or_else_text:
  assumes "text_or_absent d a" and "text_or_absent d b"
  shows "\<exists>s. or_else (dict_get d a JNull) (or_else (dict_get d b JNull) (JStr u)) = JStr s"
  using assms
  by (auto simp add: text_or_absent_def dict_get_def or_else_def split: option.splits json.splits)

lemma collect_map:
  assumes "\<forall>x \<in> set xs. \<exists>r. f x = Inr r \<and> map h r = g x"
  shows "\<exists>rs. collect f xs = Inr rs \<and> map h rs = concat (map g xs)"
  using assms
proof (induction xs)
  case Nil
  show ?case by simp
next
  case (Cons x xs)
  then obtain r where r: "f x = Inr r" "map h r = g x" by auto
  from Cons obtain rs where rs: "collect f xs = Inr rs" "map h rs = concat (map g xs)" by auto
  from r rs show ?case by (simp add: on_ok_def)
qed

lemma text_get:
  assumes "text_or_absent d k"
  shows "truthy (dict_get d k JNull) = (text_of d k \<noteq> [])"
    and "truthy (dict_get d k JNull) \<Longrightarrow> dict_get d k JNull = JStr (text_of d k)"
    and "dict_get d k (JStr []) = JStr (text_of d k)"
  using assms
  by (auto simp add: text_or_absent_def dict_get_def text_of_def split: option.splits json.splits)

lemma text_or_absent_Nil: "text_or_absent [] k"
  by (simp add: text_or_absent_def)

lemma source_mapping_object:
  assumes "slither_element_ok (JObj e)"
  shows "or_else (dict_get e ''source_mapping'' JNull) (JObj []) =
           JObj (object_of e ''source_mapping'')"
    and "text_or_absent (object_of e ''source_mapping'') ''contract''"
    and "text_or_absent (object_of e ''source_mapping'') ''filename''"
  using assms
  by (auto simp add: or_else_def dict_get_def object_of_def text_or_absent_Nil
      split: option.splits json.splits)

lemma slither_contract_chain:
  assumes "slither_element_ok e"
  shows "slither_contract e = Inr (JStr (chain_contract e))"
proof (cases e)
  case (JObj kv)
  let ?sm = "object_of kv ''source_mapping''"
  from assms JObj have ok: "slither_element_ok (JObj kv)" and c: "text_or_absent kv ''contract''"
    by simp_all
  note sm = source_mapping_object [OF ok]
  note c1 = text_get [OF sm(2)]
  note fn = text_get(3) [OF sm(3)]
  note c2 = text_get [OF c]
  show ?thesis
    unfolding JObj slither_contract_def get_def get_default.simps on_ok_def sum.case sm(1) fn
      path_arg.simps chain_contract.simps first_nonempty.simps
    by (simp add: c1 c2 or_else_def)
qed (use assms in simp_all)

lemma slither_detector_rows:
  assumes "slither_detector_ok d"
  shows "\<exists>rows. slither_detector ts d = Inr rows \<and> map finding.contract rows = detector_contracts d"
proof (cases d)
  case (JObj kv)
  let ?issue = "or_else (dict_get kv ''check'' JNull)
                  (or_else (dict_get kv ''title'' JNull) (JStr ''Slither finding''))"
  let ?desc = "or_else (dict_get kv ''description'' JNull) (JStr [])"
  from assms JObj have "text_or_absent kv ''impact''" "text_or_absent kv ''severity''"
    by simp_all
  from or_else_text [OF this] obtain s where
    s: "or_else (dict_get kv ''impact'' JNull)
          (or_else (dict_get kv ''severity'' JNull) (JStr ''Unknown'')) = JStr s"
    by blast
  from norm_sev_text obtain t where t: "norm_sev (JStr s) = Inr t"
    by blast
  from assms JObj have els: "or_else (dict_get kv ''elements'' JNull) (JArr []) =
      JArr (array_of kv ''elements'')"
    and ok: "list_all slither_element_ok (array_of kv ''elements'')"
    by (auto simp add: or_else_def dict_get_def array_of_def split: option.splits json.splits)
  show ?thesis
  proof (cases "array_of kv ''elements'' = []")
    case True
    then show ?thesis
      unfolding JObj slither_detector.simps Let_def s els
      by (simp add: t on_ok_def detector_contracts_def slither_row_def JObj del: norm_sev.simps)
  next
    case False
    let ?f = "\<lambda>e. on_ok (slither_contract e) (\<lambda>c.
             on_ok (norm_sev (JStr s)) (\<lambda>s. Inr [slither_row ts c ?issue s ?desc]))"
    have "\<forall>e \<in> set (array_of kv ''elements'').
        \<exists>r. ?f e = Inr r \<and> map finding.contract r = [JStr (chain_contract e)]"
      using ok
      by (simp add: list_all_iff slither_contract_chain t on_ok_def slither_row_def
          del: norm_sev.simps)
    from collect_map [OF this] obtain rows where
      rows: "collect ?f (array_of kv ''elements'') = Inr rows"
      and cs: "map finding.contract rows =
        concat (map (\<lambda>e. [JStr (chain_contract e)]) (array_of kv ''elements''))"
      by blast
    from cs have "map finding.contract rows = detector_contracts d"
      using False by (simp add: JObj detector_contracts_def)
    with rows False show ?thesis
      unfolding JObj slither_detector.simps Let_def s els
      by (simp add: on_ok_def del: norm_sev.simps)
  qed
qed (use assms in simp_all)

lemma parse_slither_rows:
  assumes "slither_report_ok data"
  shows "\<exists>rows. parse_slither ts (Some data) = Inr rows \<and>
           map finding.contract rows = concat (map detector_contracts (report_detectors data))"
proof (cases data)
  case (JObj doc)
  from assms JObj have res: "or_else (dict_get doc ''results'' JNull) (JObj []) =
      JObj (object_of doc ''results'')"
    and dets: "or_else (dict_get (object_of doc ''results'') ''detectors'' JNull) (JArr []) =
      JArr (array_of (object_of doc ''results'') ''detectors'')"
    and ok: "list_all slither_detector_ok (array_of (object_of doc ''results'') ''detectors'')"
    by (auto simp add: or_else_def dict_get_def object_of_def array_of_def
        split: option.splits json.splits)
  from ok have "\<forall>d \<in> set (array_of (object_of doc ''results'') ''detectors'').
      \<exists>r. slither_detector ts d = Inr r \<and> map finding.contract r = detector_contracts d"
    by (simp add: list_all_iff slither_detector_rows)
  from collect_map [OF this] show ?thesis
    unfolding JObj parse_slither_def option.case get_def get_default.simps on_ok_def sum.case
      res dets iter.simps report_detectors.simps .
qed (use assms in simp_all)

text \<open>
  C6. For every report of the scanner-A shape the parser returns, and its findings are, in
  order, one for each element of each detector that has elements, with the contract the
  chain gives (the first non-empty of \<^verbatim>\<open>source_mapping.contract\<close>, the element's
  \<^verbatim>\<open>contract\<close>, the stem of \<^verbatim>\<open>source_mapping.filename\<close>, ``Unknown''), and one with
  contract ``Unknown'' for each detector without elements. Scenario A, one detector of
  impact High with one element of file name Token.sol, gives one finding with contract
  Token and severity High.
\<close>

theorem parse_slither_findings:
  "(slither_report_ok data \<longrightarrow>
      (\<exists>rows. parse_slither ts (Some data) = Inr rows
         \<and> map finding.contract rows = concat (map detector_contracts (report_detectors data))
         \<and> length rows =
             (\<Sum>d\<leftarrow>report_detectors data.
                if detector_elements d = [] then 1 else length (detector_elements d))))
   \<and> parse_slither ts (Some scenario_a) =
       Inr [\<lparr>finding.timestamp = ts, tool = ''slither'', contract = JStr ''Token'',
             issue_type = JStr ''reentrancy-eth'', severity = ''High'',
             description = JStr ''Reentrancy in Token.withdraw()''\<rparr>]"
proof (intro conjI impI)
  assume "slither_report_ok data"
  from parse_slither_rows [OF this, of ts] obtain rows where
    rows: "parse_slither ts (Some data) = Inr rows"
    and cs: "map finding.contract rows = concat (map detector_contracts (report_detectors data))"
    by blast
  have "length rows = length (map finding.contract rows)" by simp
  also have "\<dots> = (\<Sum>d\<leftarrow>report_detectors data. length (detector_contracts d))"
    by (simp only: cs length_concat map_map comp_def)
  also have "\<dots> = (\<Sum>d\<leftarrow>report_detectors data.
                if detector_elements d = [] then 1 else length (detector_elements d))"
    by (rule arg_cong [where f = sum_list], rule map_cong) (simp_all add: detector_contracts_def)
  finally show "\<exists>rows. parse_slither ts (Some data) = Inr rows
         \<and> map finding.contract rows = concat (map detector_contracts (report_detectors data))
         \<and> length rows =
             (\<Sum>d\<leftarrow>report_detectors data.
                if detector_elements d = [] then 1 else length (detector_elements d))"
    using rows cs by blast
next
  show "parse_slither ts (Some scenario_a) =
       Inr [\<lparr>finding.timestamp = ts, tool = ''slither'', contract = JStr ''Token'',
             issue_type = JStr ''reentrancy-eth'', severity = ''High'',
             description = JStr ''Reentrancy in Token.withdraw()''\<rparr>]"
    by code_simp
qed


text \<open>
  C6 at a report with a detector of four elements, one for each link of the chain, and a
  detector without elements.
\<close>

theorem parse_slither_findings_witness:
  "slither_report_ok slither_sample
   \<and> (\<exists>rows. parse_slither ''2025-01-01T00:00:00Z'' (Some slither_sample) = Inr rows
         \<and> map finding.contract rows =
             [JStr ''Vault'', JStr ''Bank'', JStr ''Token'', JStr ''Unknown'', JStr ''Unknown'']
         \<and> length rows = 5)"
proof -
  have ok: "slither_report_ok slither_sample"
    by code_simp
  have cs: "concat (map detector_contracts (report_detectors slither_sample)) =
      [JStr ''Vault'', JStr ''Bank'', JStr ''Token'', JStr ''Unknown'', JStr ''Unknown'']"
    by code_simp
  have n: "(\<Sum>d\<leftarrow>report_detectors slither_sample.
             if detector_elements d = [] then 1 else length (detector_elements d)) = 5"
    by code_simp
  from parse_slither_findings [of slither_sample "''2025-01-01T00:00:00Z''",
      THEN conjunct1, THEN mp, OF ok]
  have "\<exists>rows. parse_slither ''2025-01-01T00:00:00Z'' (Some slither_sample) = Inr rows
         \<and> map finding.contract rows =
             [JStr ''Vault'', JStr ''Bank'', JStr ''Token'', JStr ''Unknown'', JStr ''Unknown'']
         \<and> length rows = 5"
    by (simp only: cs n)
  with ok show ?thesis by (rule conjI)
qed

text \<open>
  C3 fails on a severity token of white space only: the token is not empty, so it passes
  the test that yields ``Unknown'', and \<^verbatim>\<open>strip\<close> then leaves the empty string, which is the
  result. The scanner-A and scanner-B parsers pass it on into a finding.
\<close>

theorem norm_sev_blank:
  "norm_sev (JStr '' '') = Inr []
   \<and> parse_slither ts
        (Some (JObj [(''results'', JObj [(''detectors'',
           JArr [JObj [(''check'', JStr ''naming-convention''), (''impact'', JStr '' '')]])])])) =
       Inr [\<lparr>finding.timestamp = ts, tool = ''slither'', contract = JStr ''Unknown'',
             issue_type = JStr ''naming-convention'', severity = [], description = JStr []\<rparr>]
   \<and> parse_mythril ts
        (Some (JObj [(''issues'',
           JArr [JObj [(''title'', JStr ''Integer Overflow''), (''severity'', JStr '' ''),
                       (''contract'', JStr ''Token'')]])])) =
       Inr [\<lparr>finding.timestamp = ts, tool = ''mythril'', contract = JStr ''Token'',
             issue_type = JStr ''Integer Overflow'', severity = [], description = JStr []\<rparr>]"
  by code_simp

text \<open>
  C7 fails on a report whose \<^verbatim>\<open>failedTests\<close> is a non-empty list: \<^verbatim>\<open>.keys()\<close> is called
  on the list outside the \<^verbatim>\<open>try\<close>, and the exception leaves the parser. The same list under
  \<^verbatim>\<open>tests\<close> is skipped by the \<^verbatim>\<open>isinstance\<close> test and gives no finding.
\<close>

theorem parse_echidna_failed_tests_list:
  "parse_echidna (\<lambda>text. Some (JObj [(''failedTests'', JArr [JStr ''echidna_balance''])])) ts
     (Some content) = Inl AttributeError
   \<and> parse_echidna (\<lambda>text. Some (JObj [(''tests'', JArr [JStr ''echidna_balance''])])) ts
       (Some content) = Inr []"
  by (simp add: parse_echidna_def echidna_data_def on_ok_def or_else_def dict_get_def)


lemma capitalize_Nil_iff: "(capitalize s = []) = (s = [])"
  by (cases s) simp_all

text \<open>
  The result of \<^verbatim>\<open>norm_sev\<close> is empty exactly for the non-empty tokens of white space; the
  named tokens map as the taxonomy says.
\<close>

lemma norm_sev_empty_iff:
  assumes "norm_sev (JStr s) = Inr t"
  shows "(t = []) = (s \<noteq> [] \<and> strip s = [])"
  using assms
  by (auto simp add: Let_def lower_def capitalize_Nil_iff split: if_splits)

lemma norm_sev_known:
  "lower (strip s) \<in> {''critical'', ''very high''} \<Longrightarrow> norm_sev (JStr s) = Inr ''Critical''"
  "lower (strip s) = ''high'' \<Longrightarrow> norm_sev (JStr s) = Inr ''High''"
  "lower (strip s) = ''medium'' \<Longrightarrow> norm_sev (JStr s) = Inr ''Medium''"
  "norm_sev (JStr []) = Inr ''Unknown''"
  "norm_sev JNull = Inr ''Unknown''"
  by (auto simp add: Let_def strip_def lower_def)

text \<open>
  What does hold of the fuzzer-C parser: every finding has severity Medium and contract
  Invariants; when the whole content does not parse, the last line that is not blank is
  what is parsed; and the only exception is the \<^verbatim>\<open>AttributeError\<close> of a \<^verbatim>\<open>failedTests\<close>
  value that is true and no dict.
\<close>

lemma parse_echidna_rows:
  assumes "parse_echidna loads ts src = Inr rows"
  shows "\<forall>r \<in> set rows. severity r = ''Medium'' \<and> finding.contract r = JStr ''Invariants''"
proof (cases src)
  case None
  with assms show ?thesis by (simp add: parse_echidna_def)
next
  case (Some content)
  show ?thesis
  proof (cases "echidna_data loads content")
    case None
    with assms Some show ?thesis by (simp add: parse_echidna_def)
  next
    case (Some data)
    with assms \<open>src = Some content\<close> obtain failures where
      "rows = map (echidna_row ts) failures"
      by (cases "echidna_failures data") (auto simp add: parse_echidna_def on_ok_def)
    then show ?thesis by (simp add: echidna_row_def)
  qed
qed

lemma echidna_data_last_line:
  assumes "loads content = None"
  shows "echidna_data loads content =
     (case filter (\<lambda>ln. strip ln \<noteq> []) (splitlines (strip content)) of
        [] \<Rightarrow> Some (JObj [])
      | ln # lns \<Rightarrow> loads (last (ln # lns)))"
  using assms by (simp add: echidna_data_def Let_def split: list.splits)

lemma echidna_failures_raises:
  "(echidna_failures data = Inl e) =
     (e = AttributeError \<and>
      (\<exists>d v. data = JObj d \<and> map_of d ''failedTests'' = Some v \<and> truthy v \<and> (\<forall>m. v \<noteq> JObj m)))"
proof (cases data)
  case (JObj d)
  show ?thesis
  proof (cases "map_of d ''failedTests''")
    case None
    then have "''failedTests'' \<notin> set (map fst d)"
      by (simp add: map_of_eq_None_iff)
    with None JObj show ?thesis
      by (auto split: json.splits)
  next
    case (Some v)
    then have "''failedTests'' \<in> set (map fst d)"
      by (metis map_of_eq_None_iff option.distinct(1) set_map)
    with Some JObj show ?thesis
      by (cases v) (auto simp add: or_else_def dict_get_def)
  qed
qed simp_all

section \<open>Properties of the coverage resolution\<close>








end
